theory Spec2Isabelle
  imports Main "HOL-Library.Multiset"
begin

section \<open>Python values, errors and strings\<close>

text \<open>
  A Python \<open>str\<close> is modelled as a \<open>string\<close> whose characters are the code points
  0 to 255.  In that range the decimal digits are \<open>0\<close> to \<open>9\<close>, and the
  only characters equal to an ASCII letter up to case are the ASCII letters.
  An exception is a value \<open>Inl e\<close> of a sum type; a function of the source that has
  no raising statement is modelled by a plain total function.
\<close>

datatype error = ValueError | KeyError

datatype pyval = PNone | PStr string

text \<open>\<open>str.isspace\<close> and the regex class \<open>\s\<close>.\<close>

definition isspace :: "char \<Rightarrow> bool" where
  "isspace c = (let n = (of_char c :: nat)
                in (9 \<le> n \<and> n \<le> 13) \<or> (28 \<le> n \<and> n \<le> 32) \<or> n = 133 \<or> n = 160)"

text \<open>The regex class \<open>\d\<close>.\<close>

definition isdecimal :: "char \<Rightarrow> bool" where
  "isdecimal c = (c \<in> set ''0123456789'')"

text \<open>The regex class \<open>\w\<close>: alphanumeric characters and the underscore.\<close>

definition isword :: "char \<Rightarrow> bool" where
  "isword c = (let n = (of_char c :: nat)
               in (48 \<le> n \<and> n \<le> 57) \<or> (65 \<le> n \<and> n \<le> 90) \<or> n = 95 \<or> (97 \<le> n \<and> n \<le> 122)
                  \<or> n = 170 \<or> n = 178 \<or> n = 179 \<or> n = 181 \<or> n = 185 \<or> n = 186
                  \<or> (188 \<le> n \<and> n \<le> 190) \<or> (192 \<le> n \<and> n \<le> 214)
                  \<or> (216 \<le> n \<and> n \<le> 246) \<or> (248 \<le> n \<and> n \<le> 255))"

definition lower_char :: "char \<Rightarrow> char" where
  "lower_char c =
     (case map_of (zip ''ABCDEFGHIJKLMNOPQRSTUVWXYZ'' ''abcdefghijklmnopqrstuvwxyz'') c of
        Some l \<Rightarrow> l | None \<Rightarrow> c)"

definition upper_char :: "char \<Rightarrow> char" where
  "upper_char c =
     (case map_of (zip ''abcdefghijklmnopqrstuvwxyz'' ''ABCDEFGHIJKLMNOPQRSTUVWXYZ'') c of
        Some u \<Rightarrow> u | None \<Rightarrow> c)"

definition lower :: "string \<Rightarrow> string" where
  "lower s = map lower_char s"

definition upper :: "string \<Rightarrow> string" where
  "upper s = map upper_char s"

definition strip :: "string \<Rightarrow> string" where
  "strip s = rev (dropWhile isspace (rev (dropWhile isspace s)))"

text \<open>
  \<open>int(s)\<close> on a string of decimal digits, with or without whitespace around them
  (\<open>int(' 5')\<close> is 5: the day that \<open>%d\<close> matches may begin with a space).
\<close>

definition py_int :: "string \<Rightarrow> int" where
  "py_int s = foldl (\<lambda>n c. 10 * n + (int (of_char c) - 48)) 0 (strip s)"

text \<open>\<open>int(s)\<close> where the string may hold something else: ValueError then.\<close>

definition int_checked :: "string \<Rightarrow> error + int" where
  "int_checked s = (if s \<noteq> [] \<and> list_all isdecimal s then Inr (py_int s) else Inl ValueError)"

text \<open>The slice \<open>s[a:b]\<close> for \<open>0 \<le> a \<le> b\<close>.\<close>

definition slice :: "nat \<Rightarrow> nat \<Rightarrow> string \<Rightarrow> string" where
  "slice a b s = take (b - a) (drop a s)"

definition startswith :: "string \<Rightarrow> string \<Rightarrow> bool" where
  "startswith s p = (take (length p) s = p)"

definition endswith :: "string \<Rightarrow> string \<Rightarrow> bool" where
  "endswith s p = (drop (length s - length p) s = p)"

text \<open>The substring test \<open>sub in s\<close>.\<close>

fun contains :: "string \<Rightarrow> string \<Rightarrow> bool" where
  "contains sub [] = (sub = [])"
| "contains sub (c # cs) = (startswith (c # cs) sub \<or> contains sub cs)"

text \<open>\<open>sep.join(parts)\<close>.\<close>

fun join :: "string \<Rightarrow> string list \<Rightarrow> string" where
  "join sep [] = []"
| "join sep [x] = x"
| "join sep (x # y # ys) = x @ sep @ join sep (y # ys)"

text \<open>\<open>str(v)\<close>, as an f-string applies it.\<close>

fun str_of :: "pyval \<Rightarrow> string" where
  "str_of PNone = ''None''"
| "str_of (PStr s) = s"

fun truthy :: "pyval \<Rightarrow> bool" where
  "truthy PNone = False"
| "truthy (PStr s) = (s \<noteq> [])"

section \<open>Regular expressions of the \<open>re\<close> module\<close>

text \<open>
  The fragment of regular expressions that the source and \<open>_strptime\<close> use, matched
  by backtracking as \<open>re\<close> does: alternatives left to right, repetition greedy, the
  first way of matching the whole pattern wins.  \<open>Lit\<close> is a literal under
  \<open>re.IGNORECASE\<close>, \<open>LitCS\<close> a literal under \<open>(?-i:...)\<close>.
\<close>

datatype re =
    Eps
  | Lit char
  | LitCS char
  | Cls "char \<Rightarrow> bool"
  | Seq re re
  | Alt re re
  | Plus "char \<Rightarrow> bool"
  | Star "char \<Rightarrow> bool"
  | Group string re

type_synonym groups = "(string \<times> string) list"

fun first_some :: "('a \<Rightarrow> 'b option) \<Rightarrow> 'a list \<Rightarrow> 'b option" where
  "first_some f [] = None"
| "first_some f (x # xs) = (case f x of Some y \<Rightarrow> Some y | None \<Rightarrow> first_some f xs)"

text \<open>
  The suffixes left after a greedy run of characters of a class, longest run first;
  the last one is the string itself (the empty run).
\<close>

fun rests :: "(char \<Rightarrow> bool) \<Rightarrow> string \<Rightarrow> string list" where
  "rests P [] = [[]]"
| "rests P (c # cs) = (if P c then rests P cs @ [c # cs] else [c # cs])"

primrec rmatch ::
  "re \<Rightarrow> string \<Rightarrow> groups \<Rightarrow> (string \<Rightarrow> groups \<Rightarrow> (groups \<times> string) option)
     \<Rightarrow> (groups \<times> string) option" where
  "rmatch Eps s g k = k s g"
| "rmatch (Lit c) s g k =
     (case s of [] \<Rightarrow> None
      | x # xs \<Rightarrow> if lower_char x = lower_char c then k xs g else None)"
| "rmatch (LitCS c) s g k =
     (case s of [] \<Rightarrow> None | x # xs \<Rightarrow> if x = c then k xs g else None)"
| "rmatch (Cls P) s g k =
     (case s of [] \<Rightarrow> None | x # xs \<Rightarrow> if P x then k xs g else None)"
| "rmatch (Seq a b) s g k = rmatch a s g (\<lambda>s' g'. rmatch b s' g' k)"
| "rmatch (Alt a b) s g k =
     (case rmatch a s g k of Some r \<Rightarrow> Some r | None \<Rightarrow> rmatch b s g k)"
| "rmatch (Plus P) s g k = first_some (\<lambda>r. k r g) (butlast (rests P s))"
| "rmatch (Star P) s g k = first_some (\<lambda>r. k r g) (rests P s)"
| "rmatch (Group n a) s g k =
     rmatch a s g (\<lambda>s' g'. k s' (g' @ [(n, take (length s - length s') s)]))"

text \<open>\<open>pattern.match(s)\<close>: the groups and the unmatched rest of the string.\<close>

definition re_match :: "re \<Rightarrow> string \<Rightarrow> (groups \<times> string) option" where
  "re_match r s = rmatch r s [] (\<lambda>s' g. Some (g, s'))"

text \<open>\<open>pattern.search(s)\<close>: the match at the leftmost position that has one.\<close>

fun re_search :: "re \<Rightarrow> string \<Rightarrow> (groups \<times> string) option" where
  "re_search r [] = re_match r []"
| "re_search r (c # cs) =
     (case re_match r (c # cs) of Some m \<Rightarrow> Some m | None \<Rightarrow> re_search r cs)"

fun seqs :: "re list \<Rightarrow> re" where
  "seqs [] = Eps"
| "seqs [r] = r"
| "seqs (r # rs) = Seq r (seqs rs)"

fun alts :: "re list \<Rightarrow> re" where
  "alts [] = Eps"
| "alts [r] = r"
| "alts (r # rs) = Alt r (alts rs)"

definition lits :: "string \<Rightarrow> re" where
  "lits s = seqs (map Lit s)"

definition one_of :: "string \<Rightarrow> re" where
  "one_of cs = Cls (\<lambda>c. c \<in> set cs)"

definition opt :: "re \<Rightarrow> re" where
  "opt r = Alt r Eps"

section \<open>The \<open>datetime\<close> class\<close>

text \<open>
  A \<open>datetime\<close> value: the local fields and the UTC offset of its \<open>tzinfo\<close> in
  microseconds (\<open>None\<close> for a naive value).  The microsecond field is left out: no
  format of the source has \<open>%f\<close>, so it is always 0.
\<close>

record datetime =
  dt_year :: int
  dt_month :: int
  dt_day :: int
  dt_hour :: int
  dt_minute :: int
  dt_second :: int
  dt_tzinfo :: "int option"

definition is_leap :: "int \<Rightarrow> bool" where
  "is_leap y = (y mod 4 = 0 \<and> (y mod 100 \<noteq> 0 \<or> y mod 400 = 0))"

definition days_in_month :: "int \<Rightarrow> int \<Rightarrow> int" where
  "days_in_month y m =
     (if m = 2 then (if is_leap y then 29 else 28)
      else if m = 4 \<or> m = 6 \<or> m = 9 \<or> m = 11 then 30 else 31)"

text \<open>The check of \<open>date(year, month, day)\<close>.\<close>

definition valid_date :: "int \<Rightarrow> int \<Rightarrow> int \<Rightarrow> bool" where
  "valid_date y m d =
     (1 \<le> y \<and> y \<le> 9999 \<and> 1 \<le> m \<and> m \<le> 12 \<and> 1 \<le> d \<and> d \<le> days_in_month y m)"

text \<open>The constructor \<open>datetime(year, month, day, hour, minute, second, tzinfo)\<close>.\<close>

definition datetime_new ::
  "int \<Rightarrow> int \<Rightarrow> int \<Rightarrow> int \<Rightarrow> int \<Rightarrow> int \<Rightarrow> int option \<Rightarrow> error + datetime" where
  "datetime_new y m d h mi s tz =
     (if valid_date y m d \<and> 0 \<le> h \<and> h \<le> 23 \<and> 0 \<le> mi \<and> mi \<le> 59 \<and> 0 \<le> s \<and> s \<le> 59
      then Inr \<lparr>dt_year = y, dt_month = m, dt_day = d, dt_hour = h, dt_minute = mi,
                dt_second = s, dt_tzinfo = tz\<rparr>
      else Inl ValueError)"

text \<open>\<open>dt.replace(year=y)\<close>.\<close>

definition replace_year :: "datetime \<Rightarrow> int \<Rightarrow> error + datetime" where
  "replace_year dt y =
     datetime_new y (dt_month dt) (dt_day dt) (dt_hour dt) (dt_minute dt) (dt_second dt)
       (dt_tzinfo dt)"

text \<open>
  \<open>timezone(timedelta(seconds=..., microseconds=...))\<close>, the offset given in
  microseconds: it has to lie strictly between minus and plus 24 hours.
\<close>

definition timezone :: "int \<Rightarrow> error + int" where
  "timezone us = (if - 86400000000 < us \<and> us < 86400000000 then Inr us else Inl ValueError)"

section \<open>\<open>datetime.strptime\<close>\<close>

text \<open>
  \<open>_strptime\<close> of CPython 3.11 in the C locale, for the directives the formats of the source
  use.  \<open>TimeRE\<close> maps a directive to a regular expression with a named group.
\<close>

definition f_month :: "string list" where
  "f_month = ['''', ''january'', ''february'', ''march'', ''april'', ''may'', ''june'', ''july'',
              ''august'', ''september'', ''october'', ''november'', ''december'']"

definition a_month :: "string list" where
  "a_month = ['''', ''jan'', ''feb'', ''mar'', ''apr'', ''may'', ''jun'', ''jul'', ''aug'', ''sep'',
              ''oct'', ''nov'', ''dec'']"

definition am_pm :: "string list" where
  "am_pm = [''am'', ''pm'']"

text \<open>\<open>__seqToRE\<close>: the values as alternatives, longest first.\<close>

definition seqToRE :: "string list \<Rightarrow> string \<Rightarrow> re" where
  "seqToRE to_convert directive =
     Group directive (alts (map lits (sort_key (\<lambda>v. - int (length v)) to_convert)))"

definition D :: re where
  "D = Cls isdecimal"

text \<open>\<open>\d{1,6}\<close>\<close>

definition digits_1_6 :: re where
  "digits_1_6 = Seq D (opt (Seq D (opt (Seq D (opt (Seq D (opt (Seq D (opt D)))))))))"

definition re_d :: re where
  "re_d = Group ''d'' (alts
        [Seq (Lit CHR ''3'') (one_of ''01''), Seq (one_of ''12'') D,
         Seq (Lit CHR ''0'') (one_of ''123456789''), one_of ''123456789'',
         Seq (Lit CHR '' '') (one_of ''123456789'')])"

definition re_H :: re where
  "re_H = Group ''H'' (alts [Seq (Lit CHR ''2'') (one_of ''0123''), Seq (one_of ''01'') D, D])"

definition re_I :: re where
  "re_I = Group ''I'' (alts
        [Seq (Lit CHR ''1'') (one_of ''012''), Seq (Lit CHR ''0'') (one_of ''123456789''),
         one_of ''123456789''])"

definition re_m :: re where
  "re_m = Group ''m'' (alts
        [Seq (Lit CHR ''1'') (one_of ''012''), Seq (Lit CHR ''0'') (one_of ''123456789''),
         one_of ''123456789''])"

definition re_M :: re where
  "re_M = Group ''M'' (alts [Seq (one_of ''012345'') D, D])"

definition re_S :: re where
  "re_S = Group ''S'' (alts [Seq (Lit CHR ''6'') (one_of ''01''), Seq (one_of ''012345'') D, D])"

definition re_Y :: re where
  "re_Y = Group ''Y'' (seqs [D, D, D, D])"

definition re_z :: re where
  "re_z = Group ''z'' (Alt
        (seqs [one_of ''+-'', D, D, opt (Lit CHR '':''), one_of ''012345'', D,
               opt (seqs [opt (Lit CHR '':''), one_of ''012345'', D,
                          opt (Seq (Lit CHR ''.'') digits_1_6)])])
        (LitCS CHR ''Z''))"

definition re_B :: re where
  "re_B = seqToRE (tl f_month) ''B''"

definition re_b :: re where
  "re_b = seqToRE (tl a_month) ''b''"

definition re_p :: re where
  "re_p = seqToRE am_pm ''p''"

definition TimeRE :: "char \<Rightarrow> re option" where
  "TimeRE c =
    (if c = CHR ''d'' then Some re_d
     else if c = CHR ''H'' then Some re_H
     else if c = CHR ''I'' then Some re_I
     else if c = CHR ''m'' then Some re_m
     else if c = CHR ''M'' then Some re_M
     else if c = CHR ''S'' then Some re_S
     else if c = CHR ''Y'' then Some re_Y
     else if c = CHR ''z'' then Some re_z
     else if c = CHR ''B'' then Some re_B
     else if c = CHR ''b'' then Some re_b
     else if c = CHR ''p'' then Some re_p
     else None)"

text \<open>
  \<open>TimeRE.pattern\<close>: a run of whitespace of the format becomes \<open>\s+\<close>, a directive
  its regular expression, any other character a literal.  \<open>None\<close> is the ValueError of
  a bad directive or of a stray \<open>%\<close>.
\<close>

function pattern :: "string \<Rightarrow> re list option" where
  "pattern [] = Some []"
| "pattern (c # cs) =
     (if c = CHR 0x25 then
        (case cs of [] \<Rightarrow> None
         | d # rest \<Rightarrow>
            (case TimeRE d of None \<Rightarrow> None
             | Some r \<Rightarrow> map_option ((#) r) (pattern rest)))
      else if isspace c then map_option ((#) (Plus isspace)) (pattern (dropWhile isspace cs))
      else map_option ((#) (Lit c)) (pattern cs))"
  by pat_completeness auto
termination
  by (relation "measure length") (auto simp: length_dropWhile_le le_imp_less_Suc)

text \<open>The values \<open>_strptime\<close> collects from the groups.\<close>

record fields =
  f_year :: "int option"
  f_mon :: int
  f_day :: int
  f_hour :: int
  f_minute :: int
  f_second :: int
  f_gmtoff :: "int option"
  f_gmtoff_fraction :: int

definition fields0 :: fields where
  "fields0 = \<lparr>f_year = None, f_mon = 1, f_day = 1, f_hour = 0, f_minute = 0, f_second = 0,
              f_gmtoff = None, f_gmtoff_fraction = 0\<rparr>"

text \<open>\<open>xs.index(x)\<close>\<close>

fun index_of :: "'a list \<Rightarrow> 'a \<Rightarrow> nat option" where
  "index_of [] x = None"
| "index_of (y # ys) x = (if y = x then Some 0 else map_option Suc (index_of ys x))"

definition month_index :: "string list \<Rightarrow> string \<Rightarrow> fields \<Rightarrow> error + fields" where
  "month_index names v f =
     (case index_of names (lower v) of None \<Rightarrow> Inl ValueError
      | Some i \<Rightarrow> Inr (f\<lparr>f_mon := int i\<rparr>))"

text \<open>The branch for \<open>%z\<close>.\<close>

definition conv_z :: "string \<Rightarrow> fields \<Rightarrow> error + fields" where
  "conv_z z0 f =
     (if z0 = ''Z'' then Inr (f\<lparr>f_gmtoff := Some 0\<rparr>)
      else
        let colon = (slice 3 4 z0 = '':'');
            z1 = (if colon then take 3 z0 @ drop 4 z0 else z0)
        in if colon \<and> length z1 > 5 \<and> slice 5 6 z1 \<noteq> '':'' then Inl ValueError
           else
             let z = (if colon \<and> length z1 > 5 then take 5 z1 @ drop 6 z1 else z1);
                 hours = py_int (slice 1 3 z);
                 minutes = py_int (slice 3 5 z)
             in case (if slice 5 7 z = [] then Inr 0 else int_checked (slice 5 7 z)) of
                  Inl e \<Rightarrow> Inl e
                | Inr seconds \<Rightarrow>
                    let gmtoff = hours * 60 * 60 + minutes * 60 + seconds;
                        gmtoff_remainder = drop 8 z;
                        gmtoff_fraction =
                          py_int (gmtoff_remainder @ replicate (6 - length gmtoff_remainder) CHR ''0'')
                    in if startswith z ''-''
                       then Inr (f\<lparr>f_gmtoff := Some (- gmtoff), f_gmtoff_fraction := - gmtoff_fraction\<rparr>)
                       else Inr (f\<lparr>f_gmtoff := Some gmtoff, f_gmtoff_fraction := gmtoff_fraction\<rparr>))"

text \<open>One turn of the loop over the groups found.\<close>

definition conv_group :: "groups \<Rightarrow> string \<times> string \<Rightarrow> fields \<Rightarrow> error + fields" where
  "conv_group found_dict kv f =
     (let group_key = fst kv; v = snd kv in
      if group_key = ''Y'' then Inr (f\<lparr>f_year := Some (py_int v)\<rparr>)
      else if group_key = ''m'' then Inr (f\<lparr>f_mon := py_int v\<rparr>)
      else if group_key = ''B'' then month_index f_month v f
      else if group_key = ''b'' then month_index a_month v f
      else if group_key = ''d'' then Inr (f\<lparr>f_day := py_int v\<rparr>)
      else if group_key = ''H'' then Inr (f\<lparr>f_hour := py_int v\<rparr>)
      else if group_key = ''I'' then
        (let hour = py_int v;
             ampm = lower (case map_of found_dict ''p'' of None \<Rightarrow> [] | Some p \<Rightarrow> p)
         in if ampm = [] \<or> ampm = am_pm ! 0
            then Inr (f\<lparr>f_hour := (if hour = 12 then 0 else hour)\<rparr>)
            else if ampm = am_pm ! 1
            then Inr (f\<lparr>f_hour := (if hour \<noteq> 12 then hour + 12 else hour)\<rparr>)
            else Inr (f\<lparr>f_hour := hour\<rparr>))
      else if group_key = ''M'' then Inr (f\<lparr>f_minute := py_int v\<rparr>)
      else if group_key = ''S'' then Inr (f\<lparr>f_second := py_int v\<rparr>)
      else if group_key = ''z'' then conv_z v f
      else Inr f)"

fun conv_groups :: "groups \<Rightarrow> groups \<Rightarrow> fields \<Rightarrow> error + fields" where
  "conv_groups found_dict [] f = Inr f"
| "conv_groups found_dict (kv # kvs) f =
     (case conv_group found_dict kv f of Inl e \<Rightarrow> Inl e
      | Inr f' \<Rightarrow> conv_groups found_dict kvs f')"

text \<open>
  After the loop: the default year (1900, and 1904 for the date check of a 29 February), the
  check of the date, the timezone and the constructor.
\<close>

definition finish :: "fields \<Rightarrow> error + datetime" where
  "finish f =
     (let leap_year_fix = (f_year f = None \<and> f_mon f = 2 \<and> f_day f = 29);
          year = (case f_year f of Some y \<Rightarrow> y | None \<Rightarrow> if leap_year_fix then 1904 else 1900)
      in if \<not> valid_date year (f_mon f) (f_day f) then Inl ValueError
         else
           let year' = (if leap_year_fix then 1900 else year) in
           case f_gmtoff f of
             None \<Rightarrow> datetime_new year' (f_mon f) (f_day f) (f_hour f) (f_minute f) (f_second f) None
           | Some gmtoff \<Rightarrow>
               (case timezone (gmtoff * 1000000 + f_gmtoff_fraction f) of
                  Inl e \<Rightarrow> Inl e
                | Inr tz \<Rightarrow>
                    datetime_new year' (f_mon f) (f_day f) (f_hour f) (f_minute f) (f_second f)
                      (Some tz)))"

definition strptime :: "string \<Rightarrow> string \<Rightarrow> error + datetime" where
  "strptime data_string format =
     (case pattern format of None \<Rightarrow> Inl ValueError
      | Some rs \<Rightarrow>
         (case re_match (seqs rs) data_string of None \<Rightarrow> Inl ValueError
          | Some (found_dict, rest) \<Rightarrow>
              if rest \<noteq> [] then Inl ValueError
              else (case conv_groups found_dict found_dict fields0 of Inl e \<Rightarrow> Inl e
                    | Inr f \<Rightarrow> finish f)))"

section \<open>\<open>parse_date\<close> (\<open>ical_generator.py\<close>; \<open>GoogleCalendarClient._parse_date\<close> is the same text)\<close>

definition formats_with_year :: "string list" where
  "formats_with_year =
     [''%Y-%m-%d %H:%M:%S %z'',
      ''%Y-%m-%dT%H:%M:%S%z'',
      ''%Y-%m-%dT%H:%M:%S'',
      ''%b %d, %Y %I:%M %p'',
      ''%b %d, %Y at %I:%M %p'',
      ''%B %d, %Y %I:%M %p'',
      ''%B %d, %Y at %I:%M %p'',
      ''%m/%d/%Y %I:%M %p'']"

definition formats_without_year :: "string list" where
  "formats_without_year =
     [''%B %d at %I:%M%p'',
      ''%B %d at %I:%M %p'',
      ''%b %d at %I:%M%p'',
      ''%b %d at %I:%M %p'',
      ''%B %d %I:%M%p'',
      ''%B %d %I:%M %p'']"

text \<open>
  The first loop: \<open>Some\<close> is what the loop leaves the function with (a return or an
  exception other than ValueError), \<open>None\<close> that the loop ran to its end.
\<close>

fun try_with_year :: "string list \<Rightarrow> string \<Rightarrow> (error + datetime) option" where
  "try_with_year [] date_str = None"
| "try_with_year (fmt # fmts) date_str =
     (case strptime date_str fmt of
        Inr dt \<Rightarrow> Some (Inr dt)
      | Inl ValueError \<Rightarrow> try_with_year fmts date_str
      | Inl e \<Rightarrow> Some (Inl e))"

text \<open>The second loop; \<open>replace\<close> is inside the \<open>try\<close>.\<close>

fun try_without_year :: "int \<Rightarrow> string list \<Rightarrow> string \<Rightarrow> (error + datetime) option" where
  "try_without_year current_year [] date_str = None"
| "try_without_year current_year (fmt # fmts) date_str =
     (case (case strptime date_str fmt of Inl e \<Rightarrow> Inl e
            | Inr parsed \<Rightarrow> replace_year parsed current_year) of
        Inr dt \<Rightarrow> Some (Inr dt)
      | Inl ValueError \<Rightarrow> try_without_year current_year fmts date_str
      | Inl e \<Rightarrow> Some (Inl e))"

text \<open>\<open>(\w+)\s+(\d+)\s+at\s+(\d+):(\d+)\s*([AP]M)\<close> under \<open>re.IGNORECASE\<close>\<close>

definition month_day_regex :: re where
  "month_day_regex =
     seqs [Group ''1'' (Plus isword), Plus isspace, Group ''2'' (Plus isdecimal), Plus isspace,
           Lit CHR ''a'', Lit CHR ''t'', Plus isspace, Group ''3'' (Plus isdecimal),
           Lit CHR '':'', Group ''4'' (Plus isdecimal), Star isspace,
           Group ''5'' (Seq (Alt (Lit CHR ''A'') (Lit CHR ''P'')) (Lit CHR ''M''))]"

definition group :: "groups \<Rightarrow> string \<Rightarrow> string" where
  "group g n = (case map_of g n of Some v \<Rightarrow> v | None \<Rightarrow> [])"

text \<open>The month of the regex branch: \<open>%B\<close>, then \<open>%b\<close>; \<open>None\<close> is \<open>return None\<close>.\<close>

definition month_of :: "string \<Rightarrow> (error + int) option" where
  "month_of month_str =
     (case strptime month_str ''%B'' of
        Inr month_dt \<Rightarrow> Some (Inr (dt_month month_dt))
      | Inl ValueError \<Rightarrow>
          (case strptime month_str ''%b'' of
             Inr month_dt \<Rightarrow> Some (Inr (dt_month month_dt))
           | Inl ValueError \<Rightarrow> None
           | Inl e \<Rightarrow> Some (Inl e))
      | Inl e \<Rightarrow> Some (Inl e))"

definition regex_branch :: "int \<Rightarrow> string \<Rightarrow> error + datetime option" where
  "regex_branch current_year date_str =
     (case re_search month_day_regex date_str of
        None \<Rightarrow> Inr None
      | Some (m, rest) \<Rightarrow>
          (case month_of (group m ''1'') of
             None \<Rightarrow> Inr None
           | Some (Inl e) \<Rightarrow> Inl e
           | Some (Inr month) \<Rightarrow>
               let hour = py_int (group m ''3'');
                   minute = py_int (group m ''4'');
                   day = py_int (group m ''2'');
                   ampm = group m ''5'';
                   hour' = (if upper ampm = ''PM'' \<and> hour \<noteq> 12 then hour + 12
                            else if upper ampm = ''AM'' \<and> hour = 12 then 0 else hour)
               in (case datetime_new current_year month day hour' minute 0 None of
                     Inl e \<Rightarrow> Inl e
                   | Inr dt \<Rightarrow> Inr (Some dt))))"

text \<open>
  \<open>parse_date\<close>; \<open>current_year\<close> is \<open>datetime.now().year\<close>, read from the clock, here a
  parameter.  The argument is \<open>None\<close> or a string.
\<close>

definition parse_date :: "int \<Rightarrow> string option \<Rightarrow> error + datetime option" where
  "parse_date current_year date_str0 =
     (case date_str0 of
        None \<Rightarrow> Inr None
      | Some s \<Rightarrow>
          if s = [] then Inr None
          else
            let date_str = strip s in
            case try_with_year formats_with_year date_str of
              Some (Inr dt) \<Rightarrow> Inr (Some dt)
            | Some (Inl e) \<Rightarrow> Inl e
            | None \<Rightarrow>
                (case try_without_year current_year formats_without_year date_str of
                   Some (Inr dt) \<Rightarrow> Inr (Some dt)
                 | Some (Inl e) \<Rightarrow> Inl e
                 | None \<Rightarrow> regex_branch current_year date_str))"

section \<open>Writing a timestamp in a format\<close>

text \<open>
  \<open>datetime.strftime\<close> in the C locale, for the directives of the formats above: the
  numbers zero-padded (the year to four digits), the month names of \<open>calendar\<close>, AM or
  PM, and the UTC offset as a sign, hours and minutes (nothing for a naive value).  The
  source never calls it; it says here which string expresses a timestamp in a format.
\<close>

definition digit :: "int \<Rightarrow> char" where
  "digit j = ''0123456789'' ! nat (j mod 10)"

definition pad2 :: "int \<Rightarrow> string" where
  "pad2 n = [digit (n div 10), digit n]"

definition pad4 :: "int \<Rightarrow> string" where
  "pad4 n = [digit (n div 1000), digit (n div 100), digit (n div 10), digit n]"

definition month_name :: "string list" where
  "month_name = ['''', ''January'', ''February'', ''March'', ''April'', ''May'', ''June'', ''July'',
                 ''August'', ''September'', ''October'', ''November'', ''December'']"

definition month_abbr :: "string list" where
  "month_abbr = ['''', ''Jan'', ''Feb'', ''Mar'', ''Apr'', ''May'', ''Jun'', ''Jul'', ''Aug'', ''Sep'',
                 ''Oct'', ''Nov'', ''Dec'']"

definition hour12 :: "int \<Rightarrow> int" where
  "hour12 h = (if h mod 12 = 0 then 12 else h mod 12)"

definition utcoffset_str :: "int option \<Rightarrow> string" where
  "utcoffset_str tz =
     (case tz of None \<Rightarrow> []
      | Some us \<Rightarrow>
          (if us < 0 then ''-'' else ''+'') @ pad2 (\<bar>us\<bar> div 3600000000) @
          pad2 (\<bar>us\<bar> div 60000000 mod 60))"

definition strftime_directive :: "datetime \<Rightarrow> char \<Rightarrow> string" where
  "strftime_directive dt c =
    (if c = CHR ''Y'' then pad4 (dt_year dt)
     else if c = CHR ''m'' then pad2 (dt_month dt)
     else if c = CHR ''d'' then pad2 (dt_day dt)
     else if c = CHR ''H'' then pad2 (dt_hour dt)
     else if c = CHR ''I'' then pad2 (hour12 (dt_hour dt))
     else if c = CHR ''M'' then pad2 (dt_minute dt)
     else if c = CHR ''S'' then pad2 (dt_second dt)
     else if c = CHR ''p'' then (if dt_hour dt < 12 then ''AM'' else ''PM'')
     else if c = CHR ''B'' then month_name ! nat (dt_month dt)
     else if c = CHR ''b'' then month_abbr ! nat (dt_month dt)
     else if c = CHR ''z'' then utcoffset_str (dt_tzinfo dt)
     else [CHR 0x25, c])"

fun strftime :: "datetime \<Rightarrow> string \<Rightarrow> string" where
  "strftime dt [] = []"
| "strftime dt [c] = [c]"
| "strftime dt (c # d # cs) =
     (if c = CHR 0x25 then strftime_directive dt d @ strftime dt cs
      else c # strftime dt (d # cs))"

text \<open>
  A timestamp that a format can express: its fields are those of a \<open>datetime\<close>; its
  seconds are 0 unless the format has \<open>%S\<close>; it has a UTC offset exactly when the format
  has \<open>%z\<close>, and then one of whole minutes.
\<close>

definition expressible :: "datetime \<Rightarrow> string \<Rightarrow> bool" where
  "expressible dt fmt =
     (datetime_new (dt_year dt) (dt_month dt) (dt_day dt) (dt_hour dt) (dt_minute dt)
        (dt_second dt) (dt_tzinfo dt) = Inr dt \<and>
      (contains ''%S'' fmt \<or> dt_second dt = 0) \<and>
      (case dt_tzinfo dt of
         None \<Rightarrow> \<not> contains ''%z'' fmt
       | Some us \<Rightarrow> contains ''%z'' fmt \<and> timezone us = Inr us \<and> us mod 60000000 = 0))"

section \<open>The parsed page\<close>

text \<open>
  The tree BeautifulSoup builds: a node is a string or a tag.  A tag has its name, its
  \<open>class\<close> attribute (multi-valued: the list of its tokens, \<open>None\<close> when the tag has
  none), its other attributes (each a string; the attributes the source reads, \<open>role\<close>,
  \<open>href\<close>, \<open>datetime\<close>, \<open>aria-label\<close> and the \<open>data-\<close> ones, are all single-valued)
  and its children.  Fetching and parsing the page are outside the model: the functions
  below take the tree.
\<close>

datatype node =
    NavigableString string
  | Tag string "string list option" "(string \<times> string) list" "node list"

text \<open>\<open>tag.descendants\<close>: every node below the tag, in document order.\<close>

fun descendants :: "node \<Rightarrow> node list" where
  "descendants (NavigableString s) = []"
| "descendants (Tag n c a ch) = concat (map (\<lambda>x. x # descendants x) ch)"

fun is_tag :: "node \<Rightarrow> bool" where
  "is_tag (NavigableString s) = False"
| "is_tag (Tag n c a ch) = True"

fun tag_name :: "node \<Rightarrow> string" where
  "tag_name (NavigableString s) = []"
| "tag_name (Tag n c a ch) = n"

text \<open>\<open>tag.get(key)\<close>\<close>

fun tag_get :: "node \<Rightarrow> string \<Rightarrow> string option" where
  "tag_get (NavigableString s) key = None"
| "tag_get (Tag n c a ch) key = map_of a key"

text \<open>\<open>tag.get(key, default)\<close>\<close>

definition tag_get_default :: "node \<Rightarrow> string \<Rightarrow> string \<Rightarrow> string" where
  "tag_get_default t key dflt = (case tag_get t key of Some v \<Rightarrow> v | None \<Rightarrow> dflt)"

text \<open>
  The filter \<open>class_="c"\<close>: some token of the class is \<open>c\<close>, or the tokens joined by
  a space are.
\<close>

fun has_class :: "node \<Rightarrow> string \<Rightarrow> bool" where
  "has_class (NavigableString s) cl = False"
| "has_class (Tag n c a ch) cl =
     (case c of None \<Rightarrow> False | Some toks \<Rightarrow> cl \<in> set toks \<or> join '' '' toks = cl)"

text \<open>\<open>tag.find_all(...)\<close> and \<open>tag.find(...)\<close>, the filter given as a predicate on tags.\<close>

definition find_all :: "(node \<Rightarrow> bool) \<Rightarrow> node \<Rightarrow> node list" where
  "find_all P t = filter (\<lambda>x. is_tag x \<and> P x) (descendants t)"

definition find_first :: "(node \<Rightarrow> bool) \<Rightarrow> node \<Rightarrow> node option" where
  "find_first P t = (case find_all P t of [] \<Rightarrow> None | x # xs \<Rightarrow> Some x)"

text \<open>\<open>tag.get_text(strip=True)\<close>: the strings below the tag, each stripped, the empty ones dropped.\<close>

fun string_of :: "node \<Rightarrow> string list" where
  "string_of (NavigableString s) = [s]"
| "string_of (Tag n c a ch) = []"

definition get_text_strip :: "node \<Rightarrow> string" where
  "get_text_strip t =
     concat (filter (\<lambda>s. s \<noteq> []) (map strip (concat (map string_of (descendants t)))))"

section \<open>\<open>GradescopeClient.get_assignments\<close> (\<open>sync_gradescope.py\<close>)\<close>

definition GRADESCOPE_BASE_URL :: string where
  "GRADESCOPE_BASE_URL = ''https://www.gradescope.com''"

text \<open>The dict appended for a row.\<close>

record assignment =
  a_name :: string
  a_id :: "string option"
  a_due_date :: "string option"
  a_url :: "string option"

text \<open>\<open>not v\<close> for a value that is \<open>None\<close> or a string.\<close>

definition falsy :: "string option \<Rightarrow> bool" where
  "falsy v = (v = None \<or> v = Some [])"

text \<open>\<open>/assignments/(\d+)\<close>, without flags.\<close>

definition assignments_regex :: re where
  "assignments_regex = Seq (seqs (map LitCS ''/assignments/'')) (Group ''1'' (Plus isdecimal))"

definition is_name_link :: "node \<Rightarrow> bool" where
  "is_name_link t =
     (tag_name t = ''a'' \<and>
      (case tag_get t ''href'' of None \<Rightarrow> False
       | Some v \<Rightarrow> re_search assignments_regex v \<noteq> None))"

definition is_submit_button :: "node \<Rightarrow> bool" where
  "is_submit_button t = (tag_name t = ''button'' \<and> tag_get t ''data-assignment-title'' \<noteq> None)"

text \<open>
  The name, the href and the id of a row: method 1 (the link), then method 2 (the button)
  when the name is still missing.
\<close>

definition name_href_aid :: "node \<Rightarrow> string option \<times> string option \<times> string option" where
  "name_href_aid row =
     (let (name, href, aid) =
            (case find_first is_name_link row of
               None \<Rightarrow> (None, None, None)
             | Some name_link \<Rightarrow>
                 (let href = tag_get_default name_link ''href'' [] in
                  (Some (get_text_strip name_link), Some href,
                   (case re_search assignments_regex href of
                      Some (m, rest) \<Rightarrow> Some (group m ''1'')
                    | None \<Rightarrow> None))))
      in if falsy name then
           (case find_first is_submit_button row of
              Some submit_button \<Rightarrow>
                (tag_get submit_button ''data-assignment-title'', href,
                 tag_get submit_button ''data-assignment-id'')
            | None \<Rightarrow> (name, href, aid))
         else (name, href, aid))"

definition is_due_time :: "node \<Rightarrow> bool" where
  "is_due_time t = (tag_name t = ''time'' \<and> has_class t ''submissionTimeChart--dueDate'')"

definition is_hidden_cell :: "node \<Rightarrow> bool" where
  "is_hidden_cell t = (tag_name t = ''td'' \<and> has_class t ''hidden-column'')"

definition is_time :: "node \<Rightarrow> bool" where
  "is_time t = (tag_name t = ''time'')"

text \<open>Method 1 of the due date.\<close>

definition due_method1 :: "node \<Rightarrow> string option" where
  "due_method1 row =
     (case find_first is_due_time row of
        Some due_time_elem \<Rightarrow> tag_get due_time_elem ''datetime''
      | None \<Rightarrow> None)"

text \<open>Method 2, run when the due date is still missing.\<close>

definition due_method2 :: "node \<Rightarrow> string option \<Rightarrow> string option" where
  "due_method2 row due_date =
     (let hidden_cells = find_all is_hidden_cell row
      in if length hidden_cells \<ge> 2 then Some (get_text_strip (hidden_cells ! 1)) else due_date)"

text \<open>Method 3: the loop over the \<open>time\<close> elements, left at the first one labelled "Due at".\<close>

fun due_method3 :: "node list \<Rightarrow> string option \<Rightarrow> string option" where
  "due_method3 [] due_date = due_date"
| "due_method3 (time_elem # elems) due_date =
     (let aria_label = tag_get_default time_elem ''aria-label'' [] in
      if contains ''Due at'' aria_label
      then (if falsy (tag_get time_elem ''datetime'')
            then Some (get_text_strip time_elem)
            else tag_get time_elem ''datetime'')
      else due_method3 elems due_date)"

definition resolve_due_date :: "node \<Rightarrow> string option" where
  "resolve_due_date row =
     (let due_date = due_method1 row;
          due_date = (if falsy due_date then due_method2 row due_date else due_date);
          due_date = (if falsy due_date then due_method3 (find_all is_time row) due_date
                      else due_date)
      in due_date)"

definition assignment_url :: "string \<Rightarrow> string option \<Rightarrow> string option \<Rightarrow> string option" where
  "assignment_url course_id href aid =
     (if \<not> falsy href then Some (GRADESCOPE_BASE_URL @ the href)
      else if \<not> falsy aid
      then Some (GRADESCOPE_BASE_URL @ ''/courses/'' @ course_id @ ''/assignments/'' @ the aid)
      else None)"

text \<open>The body of the loop over the rows: \<open>None\<close> is \<open>continue\<close>.\<close>

definition process_row :: "string \<Rightarrow> node \<Rightarrow> assignment option" where
  "process_row course_id row =
     (if find_first (\<lambda>t. tag_get t ''role'' = Some ''columnheader'') row \<noteq> None then None
      else
        let (name, href, aid) = name_href_aid row in
        if falsy name then None
        else Some \<lparr>a_name = the name, a_id = aid, a_due_date = resolve_due_date row,
                   a_url = assignment_url course_id href aid\<rparr>)"

definition is_row :: "node \<Rightarrow> bool" where
  "is_row t = (tag_name t = ''tr'' \<and> tag_get t ''role'' = Some ''row'')"

definition get_assignments :: "node \<Rightarrow> string \<Rightarrow> assignment list" where
  "get_assignments soup course_id = List.map_filter (process_row course_id) (find_all is_row soup)"

section \<open>\<open>create_event\<close> and \<open>create_calendar\<close> (\<open>ical_generator.py\<close>)\<close>

text \<open>The properties \<open>create_event\<close> adds to an \<open>Event\<close>.\<close>

record event =
  ev_summary :: string
  ev_uid :: string
  ev_dtstart :: datetime
  ev_dtend :: datetime
  ev_dtstamp :: datetime
  ev_description :: string
  ev_url :: "string option"

text \<open>\<open>d.get(key, default)\<close>\<close>

definition dict_get :: "(string \<rightharpoonup> pyval) \<Rightarrow> string \<Rightarrow> pyval \<Rightarrow> pyval" where
  "dict_get d key dflt = (case d key of Some v \<Rightarrow> v | None \<Rightarrow> dflt)"

text \<open>The argument \<open>parse_date\<close> gets: \<open>assignment.get('due_date')\<close>.\<close>

definition due_date_arg :: "(string \<rightharpoonup> pyval) \<Rightarrow> string option" where
  "due_date_arg a = (case dict_get a ''due_date'' PNone of PNone \<Rightarrow> None | PStr s \<Rightarrow> Some s)"

text \<open>
  \<open>create_event\<close>; \<open>utcnow\<close> is \<open>datetime.utcnow()\<close> and \<open>current_year\<close> the year of
  \<open>datetime.now()\<close>, both read from the clock, here parameters.
\<close>

definition create_event ::
  "datetime \<Rightarrow> int \<Rightarrow> (string \<rightharpoonup> pyval) \<Rightarrow> error + event option" where
  "create_event utcnow current_year a =
     (case parse_date current_year (due_date_arg a) of
        Inl e \<Rightarrow> Inl e
      | Inr None \<Rightarrow> Inr None
      | Inr (Some due_date) \<Rightarrow>
          (case a ''name'' of None \<Rightarrow> Inl KeyError
           | Some name \<Rightarrow>
          (case a ''course_name'' of None \<Rightarrow> Inl KeyError
           | Some course_name \<Rightarrow>
              let title = str_of name @ '' - '' @ str_of course_name;
                  course_id = dict_get a ''course_id'' (PStr ''unknown'');
                  assignment_id = dict_get a ''assignment_id'' (PStr ''unknown'');
                  uid = str_of course_id @ ''-'' @ str_of assignment_id @ ''@gradescope-sync'';
                  url = dict_get a ''url'' PNone;
                  description_parts =
                    [''Course: '' @ str_of (dict_get a ''course_full_name'' course_name)]
                    @ (if truthy url then [''Link: '' @ str_of url] else [])
              in Inr (Some \<lparr>ev_summary = title, ev_uid = uid, ev_dtstart = due_date,
                            ev_dtend = due_date, ev_dtstamp = utcnow,
                            ev_description = join [CHR 0x0A] description_parts,
                            ev_url = (if truthy url then Some (str_of url) else None)\<rparr>))))"

record calendar =
  cal_prodid :: string
  cal_version :: string
  cal_calscale :: string
  cal_method :: string
  cal_x_wr_calname :: string
  cal_x_wr_timezone :: string
  cal_components :: "event list"

text \<open>The loop of \<open>create_calendar\<close>: the events added, or the exception that ends it.\<close>

fun add_events ::
  "datetime \<Rightarrow> int \<Rightarrow> (string \<rightharpoonup> pyval) list \<Rightarrow> event list \<Rightarrow> error + event list" where
  "add_events utcnow current_year [] comps = Inr comps"
| "add_events utcnow current_year (a # as) comps =
     (case create_event utcnow current_year a of
        Inl e \<Rightarrow> Inl e
      | Inr None \<Rightarrow> add_events utcnow current_year as comps
      | Inr (Some ev) \<Rightarrow> add_events utcnow current_year as (comps @ [ev]))"

definition create_calendar ::
  "datetime \<Rightarrow> int \<Rightarrow> (string \<rightharpoonup> pyval) list \<Rightarrow> error + calendar" where
  "create_calendar utcnow current_year assignments =
     (case add_events utcnow current_year assignments [] of
        Inl e \<Rightarrow> Inl e
      | Inr comps \<Rightarrow>
          Inr \<lparr>cal_prodid = ''-//Gradescope Calendar Sync//EN'', cal_version = ''2.0'',
               cal_calscale = ''GREGORIAN'', cal_method = ''PUBLISH'',
               cal_x_wr_calname = ''Gradescope Assignments'',
               cal_x_wr_timezone = ''America/Los_Angeles'', cal_components = comps\<rparr>)"

section \<open>The loop of \<open>main\<close> (\<open>generate_ical.py\<close>)\<close>

text \<open>A dict of \<open>get_courses\<close>.\<close>

record course =
  c_id :: string
  c_short_name :: string
  c_full_name :: string
  c_url :: string

definition of_opt :: "string option \<Rightarrow> pyval" where
  "of_opt v = (case v of None \<Rightarrow> PNone | Some s \<Rightarrow> PStr s)"

text \<open>The dict \<open>main\<close> appends to \<open>all_assignments\<close> for a course and one of its assignments.\<close>

definition ical_assignment :: "course \<Rightarrow> assignment \<Rightarrow> (string \<rightharpoonup> pyval)" where
  "ical_assignment c a =
     map_of [(''name'', PStr (a_name a)),
             (''course_name'', PStr (c_short_name c)),
             (''course_full_name'', PStr (c_full_name c)),
             (''course_id'', PStr (c_id c)),
             (''assignment_id'', of_opt (a_id a)),
             (''due_date'', of_opt (a_due_date a)),
             (''url'', of_opt (a_url a))]"

text \<open>
  The two nested loops; \<open>page\<close> gives the parsed page of a course, which the source fetches.
\<close>

definition all_assignments :: "(string \<Rightarrow> node) \<Rightarrow> course list \<Rightarrow> (string \<rightharpoonup> pyval) list" where
  "all_assignments page courses =
     concat (map (\<lambda>c. map (ical_assignment c)
                        (filter (\<lambda>a. \<not> falsy (a_due_date a)) (get_assignments (page (c_id c)) (c_id c))))
                 courses)"

section \<open>Example inputs\<close>

text \<open>A course, and a reading of the clock for \<open>datetime.utcnow()\<close>.\<close>

definition course_example :: course where
  "course_example =
     \<lparr>c_id = ''1001'', c_short_name = ''CS 70'', c_full_name = ''Discrete Mathematics'',
      c_url = ''https://www.gradescope.com/courses/1001''\<rparr>"

definition utcnow_example :: datetime where
  "utcnow_example =
     \<lparr>dt_year = 2026, dt_month = 1, dt_day = 20, dt_hour = 8, dt_minute = 30, dt_second = 0,
      dt_tzinfo = None\<rparr>"

text \<open>The header row of an assignment table.\<close>

definition header_row :: node where
  "header_row =
     Tag ''tr'' None [(''role'', ''row'')]
       [Tag ''th'' None [(''role'', ''columnheader'')] [NavigableString ''Name''],
        Tag ''th'' None [(''role'', ''columnheader'')] [NavigableString ''Due Date'']]"

text \<open>A row with a link to the assignment and a due-date \<open>time\<close> element.\<close>

definition link_row :: node where
  "link_row =
     Tag ''tr'' None [(''role'', ''row'')]
       [Tag ''th'' (Some [''table--primaryLink'']) [(''role'', ''rowheader'')]
          [Tag ''a'' None [(''href'', ''/courses/1001/assignments/42'')]
             [NavigableString '' Homework 1 '']],
        Tag ''td'' None []
          [Tag ''time'' (Some [''submissionTimeChart--dueDate''])
             [(''datetime'', ''2026-02-01T09:00:00-0800'')]
             [NavigableString ''Feb 01 at 9:00AM'']]]"

text \<open>A page: a table with the header row and the given data rows.\<close>

definition page_of :: "node list \<Rightarrow> node" where
  "page_of rows =
     Tag ''[document]'' None []
       [Tag ''table'' None []
          [Tag ''thead'' None [] [header_row], Tag ''tbody'' None [] rows]]"

text \<open>A row of an assignment not yet submitted: a button with a title and no id attribute.\<close>

definition button_row :: node where
  "button_row =
     Tag ''tr'' None [(''role'', ''row'')]
       [Tag ''th'' None [(''role'', ''rowheader'')]
          [Tag ''button'' (Some [''js-submitAssignment''])
             [(''type'', ''button''), (''data-assignment-title'', ''Homework 2'')]
             [NavigableString ''Homework 2'']],
        Tag ''td'' None []
          [Tag ''time'' (Some [''submissionTimeChart--dueDate''])
             [(''datetime'', ''2026-02-01T09:00:00-0800'')]
             [NavigableString ''Feb 01 at 9:00AM'']]]"

text \<open>The same with an empty id attribute, and no due date.\<close>

definition button_row_empty_id :: node where
  "button_row_empty_id =
     Tag ''tr'' None [(''role'', ''row'')]
       [Tag ''th'' None [(''role'', ''rowheader'')]
          [Tag ''button'' (Some [''js-submitAssignment''])
             [(''data-assignment-id'', []), (''data-assignment-title'', ''Homework 3'')]
             [NavigableString ''Homework 3'']]]"

text \<open>A row with neither a named link nor a button: its link has no text.\<close>

definition nameless_row :: node where
  "nameless_row =
     Tag ''tr'' None [(''role'', ''row'')]
       [Tag ''th'' None [(''role'', ''rowheader'')]
          [Tag ''a'' None [(''href'', ''/courses/1001/assignments/43'')] [NavigableString ''  '']],
        Tag ''td'' None [] [NavigableString ''No submission'']]"

text \<open>
  Rows for the three ways to a due date.  The first has two hidden cells, the second with
  a date.  The second has two hidden cells, the second one empty, and a \<open>time\<close> element
  labelled "Due at".  The third has a labelled \<open>time\<close> element without a \<open>datetime\<close>
  attribute.  The fourth has none of them.
\<close>

definition name_cell :: node where
  "name_cell =
     Tag ''th'' None [(''role'', ''rowheader'')]
       [Tag ''a'' None [(''href'', ''/courses/1001/assignments/42'')] [NavigableString ''Homework 1'']]"

definition hidden_row :: node where
  "hidden_row =
     Tag ''tr'' None [(''role'', ''row'')]
       [name_cell,
        Tag ''td'' (Some [''hidden-column'']) [] [NavigableString ''2026-01-20 09:00:00 -0800''],
        Tag ''td'' (Some [''hidden-column'']) [] [NavigableString '' 2026-02-01 09:00:00 -0800 '']]"

definition empty_hidden_row :: node where
  "empty_hidden_row =
     Tag ''tr'' None [(''role'', ''row'')]
       [name_cell,
        Tag ''td'' (Some [''hidden-column'']) [] [NavigableString ''2026-01-20 09:00:00 -0800''],
        Tag ''td'' (Some [''hidden-column'']) [] [],
        Tag ''td'' None []
          [Tag ''time'' None
             [(''aria-label'', ''Due at February 01 at 9:00AM''),
              (''datetime'', ''2026-02-01 09:00:00 -0800'')]
             [NavigableString ''Feb 01 at 9:00AM'']]]"

definition label_row :: node where
  "label_row =
     Tag ''tr'' None [(''role'', ''row'')]
       [name_cell,
        Tag ''td'' None []
          [Tag ''time'' None [(''aria-label'', ''Released at January 20 at 9:00AM'')]
             [NavigableString ''Jan 20 at 9:00AM''],
           Tag ''time'' None [(''aria-label'', ''Due at February 01 at 9:00AM'')]
             [NavigableString '' Feb 01 at 9:00AM '']]]"

definition no_due_row :: node where
  "no_due_row = Tag ''tr'' None [(''role'', ''row'')] [name_cell, Tag ''td'' None [] []]"

section \<open>Facts about \<open>parse_date\<close>\<close>

lemma try_without_year_all_fail:
  "list_all (\<lambda>fmt. strptime s fmt = Inl ValueError) fmts \<Longrightarrow> try_without_year Y fmts s = None"
  by (induction fmts) auto

lemma datetime_new_year: "datetime_new y m d h mi s tz = Inr dt \<Longrightarrow> dt_year dt = y"
  by (auto simp: datetime_new_def split: if_splits)

lemma try_without_year_year:
  "try_without_year Y fmts s = Some (Inr dt) \<Longrightarrow> dt_year dt = Y"
proof (induction fmts)
  case Nil
  then show ?case by simp
next
  case (Cons fmt fmts)
  then show ?case
    by (auto simp: replace_year_def split: sum.splits error.splits dest: datetime_new_year)
qed

lemma regex_branch_year: "regex_branch Y s = Inr (Some dt) \<Longrightarrow> dt_year dt = Y"
  by (auto simp: regex_branch_def Let_def split: option.splits sum.splits prod.splits
           dest: datetime_new_year)

subsection \<open>A day out of range\<close>

lemma day99_with_year: "try_with_year formats_with_year ''January 99 at 4:00 PM'' = None"
  by code_simp

lemma day99_without_year:
  "list_all (\<lambda>fmt. strptime ''January 99 at 4:00 PM'' fmt = Inl ValueError) formats_without_year"
  by code_simp

lemma day99_search:
  "re_search month_day_regex ''January 99 at 4:00 PM'' =
     Some ([(''1'', ''January''), (''2'', ''99''), (''3'', ''4''), (''4'', ''00''), (''5'', ''PM'')], [])"
  by code_simp

lemma day99_month: "month_of ''January'' = Some (Inr 1)"
  by code_simp

lemma day99_strip: "strip ''January 99 at 4:00 PM'' = ''January 99 at 4:00 PM''"
  by code_simp

lemma day99_values:
  "py_int ''99'' = 99" "py_int ''4'' = 4" "py_int ''00'' = 0" "upper ''PM'' = ''PM''"
  by code_simp+

text \<open>
  C1.  The claim: \<open>parse_date\<close> returns a timestamp or \<open>None\<close> on every string and never
  raises, also on "January 99 at 4:00 PM".  The code: no format accepts that string, the
  regular expression matches it, and \<open>datetime(current_year, 1, 99, 16, 0)\<close>, which no
  \<open>try\<close> encloses, raises ValueError, whatever the current year.
\<close>

theorem parse_date_day_99_raises:
  "parse_date Y (Some ''January 99 at 4:00 PM'') = Inl ValueError"
  by (simp add: parse_date_def day99_strip day99_with_year
        try_without_year_all_fail [OF day99_without_year] regex_branch_def day99_search
        day99_month group_def day99_values datetime_new_def valid_date_def days_in_month_def
        del: re_search.simps)

subsection \<open>The year of a date without a year\<close>

lemma jan24_parse:
  "parse_date 2026 (Some ''January 24 at 4:00PM'') =
     Inr (Some \<lparr>dt_year = 2026, dt_month = 1, dt_day = 24, dt_hour = 16, dt_minute = 0,
                 dt_second = 0, dt_tzinfo = None\<rparr>)"
  by code_simp

lemma jan24_with_year: "try_with_year formats_with_year (strip ''January 24 at 4:00PM'') = None"
  by code_simp

text \<open>
  C6.  When no format with a year accepts the stripped string and \<open>parse_date\<close> returns a
  timestamp (from a format without a year or from the regular expression), the year of the
  timestamp is the current year; and "January 24 at 4:00PM" in 2026 gives
  24 January 2026, 16:00.
\<close>

theorem year_less_input_gets_current_year:
  "(try_with_year formats_with_year (strip s) = None \<and> parse_date Y (Some s) = Inr (Some dt)
      \<longrightarrow> dt_year dt = Y) \<and>
   parse_date 2026 (Some ''January 24 at 4:00PM'') =
     Inr (Some \<lparr>dt_year = 2026, dt_month = 1, dt_day = 24, dt_hour = 16, dt_minute = 0,
                 dt_second = 0, dt_tzinfo = None\<rparr>)"
proof
  show "try_with_year formats_with_year (strip s) = None \<and> parse_date Y (Some s) = Inr (Some dt)
      \<longrightarrow> dt_year dt = Y"
    by (auto simp: parse_date_def Let_def split: if_splits option.splits sum.splits
          dest: try_without_year_year regex_branch_year)
  show "parse_date 2026 (Some ''January 24 at 4:00PM'') =
     Inr (Some \<lparr>dt_year = 2026, dt_month = 1, dt_day = 24, dt_hour = 16, dt_minute = 0,
                 dt_second = 0, dt_tzinfo = None\<rparr>)"
    by (rule jan24_parse)
qed

theorem year_less_input_gets_current_year_witness:
  "try_with_year formats_with_year (strip ''January 24 at 4:00PM'') = None \<and>
   parse_date 2026 (Some ''January 24 at 4:00PM'') =
     Inr (Some \<lparr>dt_year = 2026, dt_month = 1, dt_day = 24, dt_hour = 16, dt_minute = 0,
                 dt_second = 0, dt_tzinfo = None\<rparr>) \<and>
   dt_year \<lparr>dt_year = 2026, dt_month = 1, dt_day = 24, dt_hour = 16, dt_minute = 0,
            dt_second = 0, dt_tzinfo = None\<rparr> = 2026"
  using year_less_input_gets_current_year [of "''January 24 at 4:00PM''" 2026
      "\<lparr>dt_year = 2026, dt_month = 1, dt_day = 24, dt_hour = 16, dt_minute = 0,
        dt_second = 0, dt_tzinfo = None\<rparr>"]
    jan24_with_year
  by simp

section \<open>Facts about \<open>create_event\<close>\<close>

lemma parse_date_with_year:
  "s \<noteq> [] \<Longrightarrow> try_with_year formats_with_year (strip s) = Some (Inr dt)
     \<Longrightarrow> parse_date Y (Some s) = Inr (Some dt)"
  by (simp add: parse_date_def)

lemma feb1_with_year:
  "try_with_year formats_with_year (strip ''2026-02-01T09:00:00-0800'') =
     Some (Inr \<lparr>dt_year = 2026, dt_month = 2, dt_day = 1, dt_hour = 9, dt_minute = 0,
                 dt_second = 0, dt_tzinfo = Some (- 28800000000)\<rparr>)"
  by code_simp

lemma feb1_parse:
  "parse_date Y (Some ''2026-02-01T09:00:00-0800'') =
     Inr (Some \<lparr>dt_year = 2026, dt_month = 2, dt_day = 1, dt_hour = 9, dt_minute = 0,
                 dt_second = 0, dt_tzinfo = Some (- 28800000000)\<rparr>)"
  by (rule parse_date_with_year [OF _ feb1_with_year]) simp

lemma create_event_uid:
  "create_event u Y a = Inr (Some ev) \<Longrightarrow>
     ev_uid ev = str_of (dict_get a ''course_id'' (PStr ''unknown'')) @ ''-'' @
                 str_of (dict_get a ''assignment_id'' (PStr ''unknown'')) @ ''@gradescope-sync''"
  by (auto simp: create_event_def Let_def split: sum.splits option.splits)

lemma ical_assignment_ids:
  "dict_get (ical_assignment c a) ''course_id'' d = PStr (c_id c)"
  "dict_get (ical_assignment c a) ''assignment_id'' d = of_opt (a_id a)"
  by (simp_all add: ical_assignment_def dict_get_def)

lemma pipeline_uid:
  "create_event u Y (ical_assignment c a) = Inr (Some ev) \<Longrightarrow>
     ev_uid ev = c_id c @ ''-'' @ str_of (of_opt (a_id a)) @ ''@gradescope-sync''"
  by (drule create_event_uid) (simp add: ical_assignment_ids)

subsection \<open>An assignment without an id\<close>

lemma button_page:
  "get_assignments (page_of [button_row]) ''1001'' =
     [\<lparr>a_name = ''Homework 2'', a_id = None, a_due_date = Some ''2026-02-01T09:00:00-0800'',
       a_url = None\<rparr>]"
  by code_simp

text \<open>
  C2.  The claim: the uid of the event of a course and an assignment is
  "course id - assignment id @ namespace", with the token "unknown" in place of an id that is
  absent.  The code: \<open>get_assignments\<close> gives the row of a button without the id attribute
  the id \<open>None\<close>; \<open>main\<close> stores it under the key \<open>assignment_id\<close>, so the default
  \<open>'unknown'\<close> of \<open>assignment.get('assignment_id', 'unknown')\<close> is not taken, and the uid
  holds the text "None".
\<close>

theorem uid_of_null_assignment_id:
  "get_assignments (page_of [button_row]) ''1001'' =
     [\<lparr>a_name = ''Homework 2'', a_id = None, a_due_date = Some ''2026-02-01T09:00:00-0800'',
       a_url = None\<rparr>] \<and>
   create_event utcnow Y (ical_assignment course_example
       \<lparr>a_name = ''Homework 2'', a_id = None, a_due_date = Some ''2026-02-01T09:00:00-0800'',
        a_url = None\<rparr>) =
     Inr (Some \<lparr>ev_summary = ''Homework 2 - CS 70'', ev_uid = ''1001-None@gradescope-sync'',
                 ev_dtstart = \<lparr>dt_year = 2026, dt_month = 2, dt_day = 1, dt_hour = 9,
                    dt_minute = 0, dt_second = 0, dt_tzinfo = Some (- 28800000000)\<rparr>,
                 ev_dtend = \<lparr>dt_year = 2026, dt_month = 2, dt_day = 1, dt_hour = 9,
                    dt_minute = 0, dt_second = 0, dt_tzinfo = Some (- 28800000000)\<rparr>,
                 ev_dtstamp = utcnow, ev_description = ''Course: Discrete Mathematics'',
                 ev_url = None\<rparr>)"
  by (simp add: button_page create_event_def ical_assignment_def due_date_arg_def dict_get_def
      of_opt_def feb1_parse course_example_def)

subsection \<open>The uid as a function of the two ids\<close>

lemma hyphen_split:
  "CHR ''-'' \<notin> set x \<Longrightarrow> CHR ''-'' \<notin> set y \<Longrightarrow> x @ CHR ''-'' # s = y @ CHR ''-'' # t
     \<Longrightarrow> x = y \<and> s = t"
proof (induction x arbitrary: y)
  case Nil
  then show ?case by (cases y) auto
next
  case (Cons a x)
  then show ?case by (cases y) auto
qed

text \<open>
  C3, the claim as stated fails: two pairs that differ in the course id and in the
  assignment id get the same uid, since the hyphen between the ids may also occur in them.
\<close>

theorem uid_collision_counterexample:
  "map (\<lambda>(c, a). map_sum id (map_option ev_uid)
                    (create_event utcnow_example 2026 (ical_assignment c a)))
     [(\<lparr>c_id = ''1-2'', c_short_name = ''CS 70'', c_full_name = ''Discrete Mathematics'',
         c_url = ''https://www.gradescope.com/courses/1-2''\<rparr>,
       \<lparr>a_name = ''Homework 1'', a_id = Some ''3'',
         a_due_date = Some ''2026-02-01T09:00:00-0800'', a_url = None\<rparr>),
      (\<lparr>c_id = ''1'', c_short_name = ''CS 70'', c_full_name = ''Discrete Mathematics'',
         c_url = ''https://www.gradescope.com/courses/1''\<rparr>,
       \<lparr>a_name = ''Homework 1'', a_id = Some ''2-3'',
         a_due_date = Some ''2026-02-01T09:00:00-0800'', a_url = None\<rparr>)]
   = [Inr (Some ''1-2-3@gradescope-sync''), Inr (Some ''1-2-3@gradescope-sync'')]"
  by (simp add: create_event_def ical_assignment_def due_date_arg_def dict_get_def
      of_opt_def feb1_parse)

text \<open>
  C3, amended.  Two projections of the same course id and assignment id give the same uid,
  whatever the clock and the other fields.  For two pairs that both have an assignment id:
  with the same course id, different assignment ids give different uids; with the same
  assignment id, different course ids give different uids; and when no course id holds a
  hyphen, the uids differ whenever the course ids differ or the assignment ids differ.
\<close>

theorem uid_determined_by_ids:
  assumes "create_event u1 Y1 (ical_assignment c1 a1) = Inr (Some e1)"
    and "create_event u2 Y2 (ical_assignment c2 a2) = Inr (Some e2)"
  shows "(c_id c1 = c_id c2 \<and> a_id a1 = a_id a2 \<longrightarrow> ev_uid e1 = ev_uid e2) \<and>
         (a_id a1 = Some i1 \<and> a_id a2 = Some i2 \<and> c_id c1 = c_id c2 \<and> i1 \<noteq> i2
            \<longrightarrow> ev_uid e1 \<noteq> ev_uid e2) \<and>
         (a_id a1 = Some i1 \<and> a_id a2 = Some i2 \<and> i1 = i2 \<and> c_id c1 \<noteq> c_id c2
            \<longrightarrow> ev_uid e1 \<noteq> ev_uid e2) \<and>
         (a_id a1 = Some i1 \<and> a_id a2 = Some i2 \<and>
          CHR ''-'' \<notin> set (c_id c1) \<and> CHR ''-'' \<notin> set (c_id c2) \<and>
          (c_id c1 \<noteq> c_id c2 \<or> i1 \<noteq> i2)
            \<longrightarrow> ev_uid e1 \<noteq> ev_uid e2)"
proof -
  have u1: "ev_uid e1 = c_id c1 @ CHR ''-'' # str_of (of_opt (a_id a1)) @ ''@gradescope-sync''"
    using pipeline_uid [OF assms(1)] by simp
  have u2: "ev_uid e2 = c_id c2 @ CHR ''-'' # str_of (of_opt (a_id a2)) @ ''@gradescope-sync''"
    using pipeline_uid [OF assms(2)] by simp
  have "CHR ''-'' \<notin> set (c_id c1) \<and> CHR ''-'' \<notin> set (c_id c2) \<and> ev_uid e1 = ev_uid e2
            \<longrightarrow> c_id c1 = c_id c2 \<and> str_of (of_opt (a_id a1)) = str_of (of_opt (a_id a2))"
    using hyphen_split [of "c_id c1" "c_id c2"
        "str_of (of_opt (a_id a1)) @ ''@gradescope-sync''"
        "str_of (of_opt (a_id a2)) @ ''@gradescope-sync''"]
    unfolding u1 u2 by auto
  then have differ: "a_id a1 = Some i1 \<and> a_id a2 = Some i2 \<and>
      CHR ''-'' \<notin> set (c_id c1) \<and> CHR ''-'' \<notin> set (c_id c2) \<and>
      (c_id c1 \<noteq> c_id c2 \<or> i1 \<noteq> i2) \<longrightarrow> ev_uid e1 \<noteq> ev_uid e2"
    by (auto simp: of_opt_def)
  have same: "c_id c1 = c_id c2 \<and> a_id a1 = a_id a2 \<longrightarrow> ev_uid e1 = ev_uid e2"
    unfolding u1 u2 by simp
  have assignment: "a_id a1 = Some i1 \<and> a_id a2 = Some i2 \<and> c_id c1 = c_id c2 \<and> i1 \<noteq> i2
      \<longrightarrow> ev_uid e1 \<noteq> ev_uid e2"
    unfolding u1 u2 by (simp add: of_opt_def)
  have course: "a_id a1 = Some i1 \<and> a_id a2 = Some i2 \<and> i1 = i2 \<and> c_id c1 \<noteq> c_id c2
      \<longrightarrow> ev_uid e1 \<noteq> ev_uid e2"
    unfolding u1 u2 by (simp add: of_opt_def)
  from same assignment course differ show ?thesis
    by (intro conjI)
qed

theorem uid_determined_by_ids_witness:
  "map (\<lambda>(c, a). map_sum id (map_option ev_uid)
                    (create_event utcnow_example 2026 (ical_assignment c a)))
     [(course_example,
       \<lparr>a_name = ''Homework 1'', a_id = Some ''42'',
         a_due_date = Some ''2026-02-01T09:00:00-0800'', a_url = None\<rparr>),
      (course_example,
       \<lparr>a_name = ''Homework 1, again'', a_id = Some ''42'',
         a_due_date = Some ''2026-02-01T09:00:00-0800'', a_url = None\<rparr>),
      (course_example,
       \<lparr>a_name = ''Homework 2'', a_id = Some ''43'',
         a_due_date = Some ''2026-02-01T09:00:00-0800'', a_url = None\<rparr>),
      (course_example\<lparr>c_id := ''1002''\<rparr>,
       \<lparr>a_name = ''Homework 1'', a_id = Some ''42'',
         a_due_date = Some ''2026-02-01T09:00:00-0800'', a_url = None\<rparr>)]
   = [Inr (Some ''1001-42@gradescope-sync''), Inr (Some ''1001-42@gradescope-sync''),
      Inr (Some ''1001-43@gradescope-sync''), Inr (Some ''1002-42@gradescope-sync'')] \<and>
   ''1001-42@gradescope-sync'' \<noteq> ''1001-43@gradescope-sync'' \<and>
   ''1001-42@gradescope-sync'' \<noteq> ''1002-42@gradescope-sync'' \<and>
   ''1001-43@gradescope-sync'' \<noteq> ''1002-42@gradescope-sync''"
proof -
  let ?d = "\<lparr>dt_year = 2026, dt_month = 2, dt_day = 1, dt_hour = 9, dt_minute = 0,
      dt_second = 0, dt_tzinfo = Some (- 28800000000)\<rparr>"
  let ?a1 = "\<lparr>a_name = ''Homework 1'', a_id = Some ''42'',
      a_due_date = Some ''2026-02-01T09:00:00-0800'', a_url = None\<rparr>"
  let ?a1' = "\<lparr>a_name = ''Homework 1, again'', a_id = Some ''42'',
      a_due_date = Some ''2026-02-01T09:00:00-0800'', a_url = None\<rparr>"
  let ?a2 = "\<lparr>a_name = ''Homework 2'', a_id = Some ''43'',
      a_due_date = Some ''2026-02-01T09:00:00-0800'', a_url = None\<rparr>"
  let ?e1 = "\<lparr>ev_summary = ''Homework 1 - CS 70'', ev_uid = ''1001-42@gradescope-sync'',
      ev_dtstart = ?d, ev_dtend = ?d, ev_dtstamp = utcnow_example,
      ev_description = ''Course: Discrete Mathematics'', ev_url = None\<rparr>"
  let ?e1' = "\<lparr>ev_summary = ''Homework 1, again - CS 70'',
      ev_uid = ''1001-42@gradescope-sync'',
      ev_dtstart = ?d, ev_dtend = ?d, ev_dtstamp = utcnow_example,
      ev_description = ''Course: Discrete Mathematics'', ev_url = None\<rparr>"
  let ?e2 = "\<lparr>ev_summary = ''Homework 2 - CS 70'', ev_uid = ''1001-43@gradescope-sync'',
      ev_dtstart = ?d, ev_dtend = ?d, ev_dtstamp = utcnow_example,
      ev_description = ''Course: Discrete Mathematics'', ev_url = None\<rparr>"
  let ?e3 = "\<lparr>ev_summary = ''Homework 1 - CS 70'', ev_uid = ''1002-42@gradescope-sync'',
      ev_dtstart = ?d, ev_dtend = ?d, ev_dtstamp = utcnow_example,
      ev_description = ''Course: Discrete Mathematics'', ev_url = None\<rparr>"
  have ev1: "create_event utcnow_example 2026 (ical_assignment course_example ?a1) =
      Inr (Some ?e1)"
    by (simp add: create_event_def ical_assignment_def due_date_arg_def dict_get_def
        of_opt_def feb1_parse course_example_def)
  have ev1': "create_event utcnow_example 2026 (ical_assignment course_example ?a1') =
      Inr (Some ?e1')"
    by (simp add: create_event_def ical_assignment_def due_date_arg_def dict_get_def
        of_opt_def feb1_parse course_example_def)
  have ev2: "create_event utcnow_example 2026 (ical_assignment course_example ?a2) =
      Inr (Some ?e2)"
    by (simp add: create_event_def ical_assignment_def due_date_arg_def dict_get_def
        of_opt_def feb1_parse course_example_def)
  have ev3: "create_event utcnow_example 2026
      (ical_assignment (course_example\<lparr>c_id := ''1002''\<rparr>) ?a1) = Inr (Some ?e3)"
    by (simp add: create_event_def ical_assignment_def due_date_arg_def dict_get_def
        of_opt_def feb1_parse course_example_def)
  have c: "c_id course_example = ''1001''"
    by (simp add: course_example_def)
  have "ev_uid ?e1 = ev_uid ?e1'"
    using uid_determined_by_ids [OF ev1 ev1'] by simp
  moreover have "ev_uid ?e1 \<noteq> ev_uid ?e2"
    using uid_determined_by_ids [OF ev1 ev2, where ?i1.0 = "''42''" and ?i2.0 = "''43''"]
    by simp
  moreover have "ev_uid ?e1 \<noteq> ev_uid ?e3"
    using uid_determined_by_ids [OF ev1 ev3, where ?i1.0 = "''42''" and ?i2.0 = "''42''"]
    by (simp add: c)
  moreover have "ev_uid ?e2 \<noteq> ev_uid ?e3"
    using uid_determined_by_ids [OF ev2 ev3, where ?i1.0 = "''43''" and ?i2.0 = "''42''"]
    by (simp add: c)
  ultimately show ?thesis
    using ev1 ev1' ev2 ev3 by simp
qed

subsection \<open>The order of the assignments\<close>

lemma add_events_raises:
  "\<exists>a\<in>set as. \<exists>e. create_event u Y a = Inl e \<Longrightarrow> \<exists>e. add_events u Y as comps = Inl e"
proof (induction as arbitrary: comps)
  case Nil
  then show ?case by simp
next
  case (Cons a as)
  then show ?case
    by (cases "create_event u Y a") (auto split: option.splits)
qed

lemma add_events_returns:
  "\<forall>a\<in>set as. \<forall>e. create_event u Y a \<noteq> Inl e \<Longrightarrow>
     add_events u Y as comps =
       Inr (comps @ List.map_filter (\<lambda>a. case create_event u Y a of Inr r \<Rightarrow> r | Inl e \<Rightarrow> None) as)"
proof (induction as arbitrary: comps)
  case Nil
  then show ?case by (simp add: List.map_filter_simps)
next
  case (Cons a as)
  then show ?case
    by (cases "create_event u Y a") (auto simp: List.map_filter_simps split: option.splits)
qed

lemma mset_map_filter:
  "mset xs = mset ys \<Longrightarrow> mset (List.map_filter f xs) = mset (List.map_filter f ys)"
  by (simp add: List.map_filter_def)

text \<open>
  C9.  For a list of assignments and a permutation of it, with the same reading of the clock,
  \<open>create_calendar\<close> either raises on both or returns on both, and then the events of
  the two calendars are the same, as a multiset and so as a set; only their order may
  differ.
\<close>

theorem create_calendar_permutation:
  "mset xs = mset ys \<Longrightarrow>
     (case (create_calendar u Y xs, create_calendar u Y ys) of
        (Inr cal1, Inr cal2) \<Rightarrow>
           mset (cal_components cal1) = mset (cal_components cal2) \<and>
           set (cal_components cal1) = set (cal_components cal2)
      | (Inl e1, Inl e2) \<Rightarrow> True
      | _ \<Rightarrow> False)"
proof -
  assume perm: "mset xs = mset ys"
  then have sets: "set xs = set ys"
    by (rule mset_eq_setD)
  show ?thesis
  proof (cases "\<exists>a\<in>set xs. \<exists>e. create_event u Y a = Inl e")
    case True
    then have "\<exists>e. add_events u Y xs [] = Inl e" "\<exists>e. add_events u Y ys [] = Inl e"
      using add_events_raises [of xs u Y "[]"] add_events_raises [of ys u Y "[]"] sets
      by auto
    then show ?thesis
      by (auto simp: create_calendar_def)
  next
    case False
    then have ok: "\<forall>a\<in>set xs. \<forall>e. create_event u Y a \<noteq> Inl e"
      "\<forall>a\<in>set ys. \<forall>e. create_event u Y a \<noteq> Inl e"
      using sets by auto
    have m: "mset (List.map_filter (\<lambda>a. case create_event u Y a of Inr r \<Rightarrow> r | Inl e \<Rightarrow> None) xs) =
          mset (List.map_filter (\<lambda>a. case create_event u Y a of Inr r \<Rightarrow> r | Inl e \<Rightarrow> None) ys)"
      using perm by (rule mset_map_filter)
    show ?thesis
      using m mset_eq_setD [OF m]
      by (simp add: create_calendar_def add_events_returns [OF ok(1)] add_events_returns [OF ok(2)])
  qed
qed

lemma two_events:
  "create_event utcnow_example 2026 (ical_assignment course_example
       \<lparr>a_name = ''Homework 1'', a_id = Some ''42'',
        a_due_date = Some ''2026-02-01T09:00:00-0800'', a_url = None\<rparr>) =
     Inr (Some \<lparr>ev_summary = ''Homework 1 - CS 70'', ev_uid = ''1001-42@gradescope-sync'',
                 ev_dtstart = \<lparr>dt_year = 2026, dt_month = 2, dt_day = 1, dt_hour = 9,
                    dt_minute = 0, dt_second = 0, dt_tzinfo = Some (- 28800000000)\<rparr>,
                 ev_dtend = \<lparr>dt_year = 2026, dt_month = 2, dt_day = 1, dt_hour = 9,
                    dt_minute = 0, dt_second = 0, dt_tzinfo = Some (- 28800000000)\<rparr>,
                 ev_dtstamp = utcnow_example, ev_description = ''Course: Discrete Mathematics'',
                 ev_url = None\<rparr>)"
  "create_event utcnow_example 2026 (ical_assignment course_example
       \<lparr>a_name = ''Homework 2'', a_id = None,
        a_due_date = Some ''2026-02-01T09:00:00-0800'', a_url = None\<rparr>) =
     Inr (Some \<lparr>ev_summary = ''Homework 2 - CS 70'', ev_uid = ''1001-None@gradescope-sync'',
                 ev_dtstart = \<lparr>dt_year = 2026, dt_month = 2, dt_day = 1, dt_hour = 9,
                    dt_minute = 0, dt_second = 0, dt_tzinfo = Some (- 28800000000)\<rparr>,
                 ev_dtend = \<lparr>dt_year = 2026, dt_month = 2, dt_day = 1, dt_hour = 9,
                    dt_minute = 0, dt_second = 0, dt_tzinfo = Some (- 28800000000)\<rparr>,
                 ev_dtstamp = utcnow_example, ev_description = ''Course: Discrete Mathematics'',
                 ev_url = None\<rparr>)"
  by (simp_all add: create_event_def ical_assignment_def due_date_arg_def dict_get_def
      of_opt_def feb1_parse course_example_def)

theorem create_calendar_permutation_witness:
  "mset [ical_assignment course_example
           \<lparr>a_name = ''Homework 1'', a_id = Some ''42'',
            a_due_date = Some ''2026-02-01T09:00:00-0800'', a_url = None\<rparr>,
         ical_assignment course_example
           \<lparr>a_name = ''Homework 2'', a_id = None,
            a_due_date = Some ''2026-02-01T09:00:00-0800'', a_url = None\<rparr>] =
   mset [ical_assignment course_example
           \<lparr>a_name = ''Homework 2'', a_id = None,
            a_due_date = Some ''2026-02-01T09:00:00-0800'', a_url = None\<rparr>,
         ical_assignment course_example
           \<lparr>a_name = ''Homework 1'', a_id = Some ''42'',
            a_due_date = Some ''2026-02-01T09:00:00-0800'', a_url = None\<rparr>] \<and>
   map_sum id (map ev_uid \<circ> cal_components)
     (create_calendar utcnow_example 2026
        [ical_assignment course_example
           \<lparr>a_name = ''Homework 1'', a_id = Some ''42'',
            a_due_date = Some ''2026-02-01T09:00:00-0800'', a_url = None\<rparr>,
         ical_assignment course_example
           \<lparr>a_name = ''Homework 2'', a_id = None,
            a_due_date = Some ''2026-02-01T09:00:00-0800'', a_url = None\<rparr>]) =
     Inr [''1001-42@gradescope-sync'', ''1001-None@gradescope-sync''] \<and>
   map_sum id (map ev_uid \<circ> cal_components)
     (create_calendar utcnow_example 2026
        [ical_assignment course_example
           \<lparr>a_name = ''Homework 2'', a_id = None,
            a_due_date = Some ''2026-02-01T09:00:00-0800'', a_url = None\<rparr>,
         ical_assignment course_example
           \<lparr>a_name = ''Homework 1'', a_id = Some ''42'',
            a_due_date = Some ''2026-02-01T09:00:00-0800'', a_url = None\<rparr>]) =
     Inr [''1001-None@gradescope-sync'', ''1001-42@gradescope-sync''] \<and>
   (case (create_calendar utcnow_example 2026
            [ical_assignment course_example
               \<lparr>a_name = ''Homework 1'', a_id = Some ''42'',
                a_due_date = Some ''2026-02-01T09:00:00-0800'', a_url = None\<rparr>,
             ical_assignment course_example
               \<lparr>a_name = ''Homework 2'', a_id = None,
                a_due_date = Some ''2026-02-01T09:00:00-0800'', a_url = None\<rparr>],
          create_calendar utcnow_example 2026
            [ical_assignment course_example
               \<lparr>a_name = ''Homework 2'', a_id = None,
                a_due_date = Some ''2026-02-01T09:00:00-0800'', a_url = None\<rparr>,
             ical_assignment course_example
               \<lparr>a_name = ''Homework 1'', a_id = Some ''42'',
                a_due_date = Some ''2026-02-01T09:00:00-0800'', a_url = None\<rparr>]) of
      (Inr cal1, Inr cal2) \<Rightarrow>
         mset (cal_components cal1) = mset (cal_components cal2) \<and>
         set (cal_components cal1) = set (cal_components cal2)
    | (Inl e1, Inl e2) \<Rightarrow> True
    | _ \<Rightarrow> False)"
proof -
  let ?d1 = "ical_assignment course_example
           \<lparr>a_name = ''Homework 1'', a_id = Some ''42'',
            a_due_date = Some ''2026-02-01T09:00:00-0800'', a_url = None\<rparr>"
  let ?d2 = "ical_assignment course_example
           \<lparr>a_name = ''Homework 2'', a_id = None,
            a_due_date = Some ''2026-02-01T09:00:00-0800'', a_url = None\<rparr>"
  have perm: "mset [?d1, ?d2] = mset [?d2, ?d1]"
    by simp
  have uids: "map_sum id (map ev_uid \<circ> cal_components)
       (create_calendar utcnow_example 2026 [?d1, ?d2]) =
     Inr [''1001-42@gradescope-sync'', ''1001-None@gradescope-sync'']"
    "map_sum id (map ev_uid \<circ> cal_components)
       (create_calendar utcnow_example 2026 [?d2, ?d1]) =
     Inr [''1001-None@gradescope-sync'', ''1001-42@gradescope-sync'']"
    by (simp_all add: create_calendar_def two_events)
  from create_calendar_permutation [OF perm, of utcnow_example 2026] perm uids
  show ?thesis
    by blast
qed

section \<open>Facts about \<open>get_assignments\<close>\<close>

lemma find_first_holds: "find_first P t = Some x \<Longrightarrow> P x"
proof -
  assume "find_first P t = Some x"
  then obtain xs where "filter (\<lambda>y. is_tag y \<and> P y) (descendants t) = x # xs"
    by (auto simp: find_first_def find_all_def split: list.splits)
  then show "P x"
    by (auto dest: filter_eq_ConsD)
qed

lemma map_filter_skip:
  "f x = None \<Longrightarrow> List.map_filter f (xs @ x # ys) = List.map_filter f xs @ List.map_filter f ys"
  by (simp add: List.map_filter_def)

lemma set_map_filter: "y \<in> set (List.map_filter f xs) \<Longrightarrow> \<exists>x\<in>set xs. f x = Some y"
  by (auto simp: List.map_filter_def)

subsection \<open>Rows without a name\<close>

lemma nameless_row_facts:
  "find_first is_name_link nameless_row =
     Some (Tag ''a'' None [(''href'', ''/courses/1001/assignments/43'')] [NavigableString ''  ''])"
  "get_text_strip (Tag ''a'' None [(''href'', ''/courses/1001/assignments/43'')]
     [NavigableString ''  '']) = []"
  "find_first is_submit_button nameless_row = None"
  "find_all is_row (page_of [nameless_row, link_row]) = [header_row] @ nameless_row # [link_row]"
  "process_row ''1001'' header_row = None"
  "process_row ''1001'' link_row =
     Some \<lparr>a_name = ''Homework 1'', a_id = Some ''42'',
       a_due_date = Some ''2026-02-01T09:00:00-0800'',
       a_url = Some ''https://www.gradescope.com/courses/1001/assignments/42''\<rparr>"
  by code_simp+

text \<open>
  C5.  A row in which the link gives no name (there is no assignment link, or its text is
  empty) and the button gives none either (there is no button with a title attribute, or
  the title is empty) is skipped: the body of the loop yields no record for it, and the
  result of \<open>get_assignments\<close> is made of the records of the rows before it and after it.
  The function has no statement that raises on a tree.
\<close>

theorem nameless_row_is_skipped:
  assumes "case find_first is_name_link row of None \<Rightarrow> True
           | Some name_link \<Rightarrow> get_text_strip name_link = []"
    and "case find_first is_submit_button row of None \<Rightarrow> True
         | Some submit_button \<Rightarrow> falsy (tag_get submit_button ''data-assignment-title'')"
  shows "process_row course_id row = None \<and>
         (find_all is_row soup = rows1 @ row # rows2 \<longrightarrow>
            get_assignments soup course_id =
              List.map_filter (process_row course_id) rows1 @
              List.map_filter (process_row course_id) rows2)"
proof -
  have "falsy (fst (name_href_aid row))"
    using assms
    by (auto simp: name_href_aid_def falsy_def Let_def split: option.splits)
  then have skip: "process_row course_id row = None"
    by (auto simp: process_row_def Let_def split: prod.splits)
  then show ?thesis
    by (simp add: get_assignments_def map_filter_skip)
qed

theorem nameless_row_is_skipped_witness:
  "find_first is_name_link nameless_row =
     Some (Tag ''a'' None [(''href'', ''/courses/1001/assignments/43'')] [NavigableString ''  '']) \<and>
   get_text_strip (Tag ''a'' None [(''href'', ''/courses/1001/assignments/43'')]
     [NavigableString ''  '']) = [] \<and>
   find_first is_submit_button nameless_row = None \<and>
   process_row ''1001'' nameless_row = None \<and>
   find_all is_row (page_of [nameless_row, link_row]) = [header_row] @ nameless_row # [link_row] \<and>
   get_assignments (page_of [nameless_row, link_row]) ''1001'' =
     [\<lparr>a_name = ''Homework 1'', a_id = Some ''42'',
       a_due_date = Some ''2026-02-01T09:00:00-0800'',
       a_url = Some ''https://www.gradescope.com/courses/1001/assignments/42''\<rparr>]"
  using nameless_row_is_skipped [of nameless_row "''1001''" "page_of [nameless_row, link_row]"
      "[header_row]" "[link_row]"]
  by (simp add: nameless_row_facts List.map_filter_simps)

subsection \<open>The url of a record\<close>

lemma search_empty_href: "re_search assignments_regex [] = None"
  by code_simp

lemma name_link_href: "is_name_link t \<Longrightarrow> \<not> falsy (Some (tag_get_default t ''href'' []))"
  by (auto simp: is_name_link_def tag_get_default_def falsy_def search_empty_href
      simp del: re_search.simps split: option.splits)

text \<open>
  C10, the claim as stated fails: a button with an empty id attribute gives a record whose
  id is the empty string, not \<open>None\<close>, and whose url is \<open>None\<close>.
\<close>

theorem empty_id_without_url_counterexample:
  "get_assignments (page_of [button_row_empty_id]) ''1001'' =
     [\<lparr>a_name = ''Homework 3'', a_id = Some [], a_due_date = None, a_url = None\<rparr>]"
  by code_simp

text \<open>
  C10, amended.  Every record of \<open>get_assignments\<close> comes from a row.  If the row has an
  assignment link, the url is the base URL followed by the href of the link.  Otherwise, if
  the id (which the button gave) is neither \<open>None\<close> nor empty, the url is
  base/courses/course id/assignments/id; otherwise the url is \<open>None\<close>.  So every record
  whose id is neither \<open>None\<close> nor empty has a url.
\<close>

theorem record_url_cases:
  assumes "r \<in> set (get_assignments soup course_id)"
  shows "\<exists>row\<in>set (find_all is_row soup).
           process_row course_id row = Some r \<and>
           (case find_first is_name_link row of
              Some name_link \<Rightarrow>
                a_url r = Some (GRADESCOPE_BASE_URL @ tag_get_default name_link ''href'' [])
            | None \<Rightarrow>
                if \<not> falsy (a_id r)
                then a_url r = Some (GRADESCOPE_BASE_URL @ ''/courses/'' @ course_id @
                                     ''/assignments/'' @ the (a_id r))
                else a_url r = None) \<and>
           (\<not> falsy (a_id r) \<longrightarrow> a_url r \<noteq> None)"
proof -
  from assms obtain row where row: "row \<in> set (find_all is_row soup)"
    and r: "process_row course_id row = Some r"
    unfolding get_assignments_def by (blast dest: set_map_filter)
  have "case find_first is_name_link row of
              Some name_link \<Rightarrow>
                a_url r = Some (GRADESCOPE_BASE_URL @ tag_get_default name_link ''href'' [])
            | None \<Rightarrow>
                if \<not> falsy (a_id r)
                then a_url r = Some (GRADESCOPE_BASE_URL @ ''/courses/'' @ course_id @
                                     ''/assignments/'' @ the (a_id r))
                else a_url r = None"
  proof (cases "find_first is_name_link row")
    case None
    with r show ?thesis
      by (auto simp: process_row_def name_href_aid_def assignment_url_def Let_def falsy_def
          split: if_splits option.splits)
  next
    case (Some name_link)
    then have "\<not> falsy (Some (tag_get_default name_link ''href'' []))"
      by (intro name_link_href find_first_holds)
    with Some r show ?thesis
      by (auto simp: process_row_def name_href_aid_def assignment_url_def Let_def
          split: if_splits option.splits)
  qed
  moreover from this have "\<not> falsy (a_id r) \<longrightarrow> a_url r \<noteq> None"
    by (auto split: option.splits)
  ultimately show ?thesis
    using row r by blast
qed

lemma link_page:
  "get_assignments (page_of [link_row]) ''1001'' =
     [\<lparr>a_name = ''Homework 1'', a_id = Some ''42'',
       a_due_date = Some ''2026-02-01T09:00:00-0800'',
       a_url = Some ''https://www.gradescope.com/courses/1001/assignments/42''\<rparr>]"
  by code_simp

theorem record_url_cases_witness:
  "\<lparr>a_name = ''Homework 1'', a_id = Some ''42'',
     a_due_date = Some ''2026-02-01T09:00:00-0800'',
     a_url = Some ''https://www.gradescope.com/courses/1001/assignments/42''\<rparr>
     \<in> set (get_assignments (page_of [link_row]) ''1001'') \<and>
   \<not> falsy (Some ''42'') \<and>
   (\<exists>row\<in>set (find_all is_row (page_of [link_row])).
      process_row ''1001'' row =
        Some \<lparr>a_name = ''Homework 1'', a_id = Some ''42'',
               a_due_date = Some ''2026-02-01T09:00:00-0800'',
               a_url = Some ''https://www.gradescope.com/courses/1001/assignments/42''\<rparr>)"
proof -
  have mem: "\<lparr>a_name = ''Homework 1'', a_id = Some ''42'',
     a_due_date = Some ''2026-02-01T09:00:00-0800'',
     a_url = Some ''https://www.gradescope.com/courses/1001/assignments/42''\<rparr>
     \<in> set (get_assignments (page_of [link_row]) ''1001'')"
    by (simp add: link_page)
  from record_url_cases [OF mem] mem show ?thesis
    by (auto simp: falsy_def)
qed

subsection \<open>The due date of a row\<close>

lemma due_method3_find:
  "due_method3 elems due_date =
     (case List.find (\<lambda>t. contains ''Due at'' (tag_get_default t ''aria-label'' [])) elems of
        Some time_elem \<Rightarrow>
          if \<not> falsy (tag_get time_elem ''datetime'') then tag_get time_elem ''datetime''
          else Some (get_text_strip time_elem)
      | None \<Rightarrow> due_date)"
  by (induction elems) (simp_all add: Let_def)

lemma due_rows:
  "map resolve_due_date [link_row, hidden_row, empty_hidden_row, label_row, no_due_row] =
     [Some ''2026-02-01T09:00:00-0800'', Some ''2026-02-01 09:00:00 -0800'',
      Some ''2026-02-01 09:00:00 -0800'', Some ''Feb 01 at 9:00AM'', None]"
  by code_simp

lemma no_due_row_facts:
  "due_method1 no_due_row = None"
  "find_all is_hidden_cell no_due_row = []"
  "List.find (\<lambda>t. contains ''Due at'' (tag_get_default t ''aria-label'' []))
     (find_all is_time no_due_row) = None"
  "find_first (\<lambda>t. tag_get t ''role'' = Some ''columnheader'') no_due_row = None"
  "fst (name_href_aid no_due_row) = Some ''Homework 1''"
  by code_simp+

text \<open>
  C4, the claim as stated fails: a row with two hidden cells, the second of them empty, does
  not get the text of the second cell as its due date; the third method runs and the due date
  is that of the \<open>time\<close> element labelled "Due at".
\<close>

theorem empty_hidden_cell_counterexample:
  "find_first is_due_time empty_hidden_row = None \<and>
   map get_text_strip (find_all is_hidden_cell empty_hidden_row) =
     [''2026-01-20 09:00:00 -0800'', []] \<and>
   resolve_due_date empty_hidden_row = Some ''2026-02-01 09:00:00 -0800''"
  by code_simp

text \<open>
  C4, amended.  The due date of a row is found by three methods in this order, a method
  counting only when it gives a string that is not empty: (a) the \<open>datetime\<close> attribute of
  the first \<open>time\<close> element with the due-date class; (b) the text of the second
  hidden-column cell, when the row has two; (c) for the first \<open>time\<close> element whose label
  contains "Due at", its \<open>datetime\<close> attribute when that is not empty and else its text.
  When none of them counts the due date is \<open>None\<close> or the empty string, and the row still
  gives a record, with that due date.
\<close>

theorem due_date_methods:
  "resolve_due_date row =
     (let first = (case find_first is_due_time row of
                     Some due_time_elem \<Rightarrow> tag_get due_time_elem ''datetime''
                   | None \<Rightarrow> None);
          hidden_cells = find_all is_hidden_cell row;
          labelled = List.find (\<lambda>t. contains ''Due at'' (tag_get_default t ''aria-label'' []))
                       (find_all is_time row)
      in if \<not> falsy first then first
         else if length hidden_cells \<ge> 2 \<and> get_text_strip (hidden_cells ! 1) \<noteq> []
         then Some (get_text_strip (hidden_cells ! 1))
         else (case labelled of
                 Some time_elem \<Rightarrow>
                   if \<not> falsy (tag_get time_elem ''datetime'') then tag_get time_elem ''datetime''
                   else Some (get_text_strip time_elem)
               | None \<Rightarrow> if length hidden_cells \<ge> 2 then Some [] else first)) \<and>
   (falsy (due_method1 row) \<and>
    \<not> (length (find_all is_hidden_cell row) \<ge> 2 \<and>
       get_text_strip (find_all is_hidden_cell row ! 1) \<noteq> []) \<and>
    List.find (\<lambda>t. contains ''Due at'' (tag_get_default t ''aria-label'' []))
      (find_all is_time row) = None
    \<longrightarrow> falsy (resolve_due_date row)) \<and>
   (find_first (\<lambda>t. tag_get t ''role'' = Some ''columnheader'') row = None \<and>
    \<not> falsy (fst (name_href_aid row))
    \<longrightarrow> (\<exists>r. process_row course_id row = Some r \<and> a_due_date r = resolve_due_date row))"
proof (intro conjI)
  show "resolve_due_date row =
     (let first = (case find_first is_due_time row of
                     Some due_time_elem \<Rightarrow> tag_get due_time_elem ''datetime''
                   | None \<Rightarrow> None);
          hidden_cells = find_all is_hidden_cell row;
          labelled = List.find (\<lambda>t. contains ''Due at'' (tag_get_default t ''aria-label'' []))
                       (find_all is_time row)
      in if \<not> falsy first then first
         else if length hidden_cells \<ge> 2 \<and> get_text_strip (hidden_cells ! 1) \<noteq> []
         then Some (get_text_strip (hidden_cells ! 1))
         else (case labelled of
                 Some time_elem \<Rightarrow>
                   if \<not> falsy (tag_get time_elem ''datetime'') then tag_get time_elem ''datetime''
                   else Some (get_text_strip time_elem)
               | None \<Rightarrow> if length hidden_cells \<ge> 2 then Some [] else first))"
    by (auto simp: resolve_due_date_def due_method1_def due_method2_def due_method3_find
        Let_def falsy_def split: option.splits)
  show "falsy (due_method1 row) \<and>
    \<not> (length (find_all is_hidden_cell row) \<ge> 2 \<and>
       get_text_strip (find_all is_hidden_cell row ! 1) \<noteq> []) \<and>
    List.find (\<lambda>t. contains ''Due at'' (tag_get_default t ''aria-label'' []))
      (find_all is_time row) = None
    \<longrightarrow> falsy (resolve_due_date row)"
    by (auto simp: resolve_due_date_def due_method2_def due_method3_find Let_def falsy_def)
  show "find_first (\<lambda>t. tag_get t ''role'' = Some ''columnheader'') row = None \<and>
    \<not> falsy (fst (name_href_aid row))
    \<longrightarrow> (\<exists>r. process_row course_id row = Some r \<and> a_due_date r = resolve_due_date row)"
    by (auto simp: process_row_def Let_def split: prod.splits)
qed

theorem due_date_methods_witness:
  "falsy (due_method1 no_due_row) \<and>
   find_all is_hidden_cell no_due_row = [] \<and>
   List.find (\<lambda>t. contains ''Due at'' (tag_get_default t ''aria-label'' []))
     (find_all is_time no_due_row) = None \<and>
   find_first (\<lambda>t. tag_get t ''role'' = Some ''columnheader'') no_due_row = None \<and>
   \<not> falsy (fst (name_href_aid no_due_row)) \<and>
   falsy (resolve_due_date no_due_row) \<and>
   (\<exists>r. process_row ''1001'' no_due_row = Some r \<and> a_due_date r = resolve_due_date no_due_row) \<and>
   map resolve_due_date [link_row, hidden_row, empty_hidden_row, label_row, no_due_row] =
     [Some ''2026-02-01T09:00:00-0800'', Some ''2026-02-01 09:00:00 -0800'',
      Some ''2026-02-01 09:00:00 -0800'', Some ''Feb 01 at 9:00AM'', None]"
proof -
  have h: "falsy (due_method1 no_due_row)" "\<not> falsy (fst (name_href_aid no_due_row))"
    by (simp_all add: no_due_row_facts falsy_def)
  from due_date_methods [of no_due_row "''1001''"]
  have "falsy (due_method1 no_due_row) \<and>
    \<not> (length (find_all is_hidden_cell no_due_row) \<ge> 2 \<and>
       get_text_strip (find_all is_hidden_cell no_due_row ! 1) \<noteq> []) \<and>
    List.find (\<lambda>t. contains ''Due at'' (tag_get_default t ''aria-label'' []))
      (find_all is_time no_due_row) = None
    \<longrightarrow> falsy (resolve_due_date no_due_row)"
    and "find_first (\<lambda>t. tag_get t ''role'' = Some ''columnheader'') no_due_row = None \<and>
    \<not> falsy (fst (name_href_aid no_due_row))
    \<longrightarrow> (\<exists>r. process_row ''1001'' no_due_row = Some r \<and>
            a_due_date r = resolve_due_date no_due_row)"
    by blast+
  with h have "falsy (resolve_due_date no_due_row)"
    and "\<exists>r. process_row ''1001'' no_due_row = Some r \<and>
            a_due_date r = resolve_due_date no_due_row"
    by (simp_all only: no_due_row_facts) simp_all
  with h due_rows show ?thesis
    by (simp only: no_due_row_facts) blast
qed

section \<open>From a page to an event\<close>

lemma link_page_rows: "find_all is_row (page_of [link_row]) = [header_row, link_row]"
  by code_simp

lemma link_row_record:
  "process_row course_id link_row =
     Some \<lparr>a_name = ''Homework 1'', a_id = Some ''42'',
            a_due_date = Some ''2026-02-01T09:00:00-0800'',
            a_url = Some ''https://www.gradescope.com/courses/1001/assignments/42''\<rparr>"
proof -
  have "find_first (\<lambda>t. tag_get t ''role'' = Some ''columnheader'') link_row = None"
    "name_href_aid link_row =
       (Some ''Homework 1'', Some ''/courses/1001/assignments/42'', Some ''42'')"
    "resolve_due_date link_row = Some ''2026-02-01T09:00:00-0800''"
    "GRADESCOPE_BASE_URL @ ''/courses/1001/assignments/42'' =
       ''https://www.gradescope.com/courses/1001/assignments/42''"
    by code_simp+
  then show ?thesis
    by (simp add: process_row_def assignment_url_def falsy_def)
qed

lemma header_row_skipped: "process_row course_id header_row = None"
proof -
  have "find_first (\<lambda>t. tag_get t ''role'' = Some ''columnheader'') header_row \<noteq> None"
    by code_simp
  then show ?thesis
    by (simp add: process_row_def)
qed

text \<open>
  C8, the claim as stated fails: the uid of the event does not end in the id of the
  assignment; the namespace follows the id.
\<close>

theorem uid_suffix_counterexample:
  "map (\<lambda>a. (a_id a,
             map_sum id (map_option (\<lambda>ev. (ev_uid ev, endswith (ev_uid ev) (the (a_id a)))))
               (create_event utcnow_example 2026 (ical_assignment course_example a))))
     (get_assignments (page_of [link_row]) ''1001'')
   = [(Some ''42'', Inr (Some (''1001-42@gradescope-sync'', False)))]"
proof -
  have "\<not> endswith ''1001-42@gradescope-sync'' ''42''"
    by code_simp
  then show ?thesis
    by (simp add: get_assignments_def link_page_rows List.map_filter_simps header_row_skipped
        link_row_record create_event_def ical_assignment_def due_date_arg_def dict_get_def
        of_opt_def feb1_parse course_example_def)
qed

text \<open>
  C8, amended.  A page whose rows are a header row (one with a cell of the column-header
  role) and one data row, where the data row gives a non-empty name and an id (by the link
  or by the button) and its first \<open>time\<close> element of the due-date class has
  \<open>datetime="2026-02-01T09:00:00-0800"\<close>; any course and any clock.  Then
  \<open>get_assignments\<close> returns exactly one record, with that name and id, and its event
  starts on 2026-02-01 at 09:00 with the UTC offset of minus 8 hours and has the uid
  "course id-assignment id@gradescope-sync": the uid ends in the id followed by the
  namespace.
\<close>

theorem one_row_end_to_end:
  assumes rows: "find_all is_row soup = [header, row]"
    and header: "find_first (\<lambda>t. tag_get t ''role'' = Some ''columnheader'') header \<noteq> None"
    and data: "find_first (\<lambda>t. tag_get t ''role'' = Some ''columnheader'') row = None"
    and name: "name_href_aid row = (Some name, href, Some aid)" "name \<noteq> []"
    and due: "find_first is_due_time row = Some time_elem"
      "tag_get time_elem ''datetime'' = Some ''2026-02-01T09:00:00-0800''"
  shows "get_assignments soup (c_id c) =
           [\<lparr>a_name = name, a_id = Some aid, a_due_date = Some ''2026-02-01T09:00:00-0800'',
             a_url = assignment_url (c_id c) href (Some aid)\<rparr>] \<and>
         map_sum id (map_option (\<lambda>ev. (ev_uid ev, ev_dtstart ev)))
           (create_event utcnow Y (ical_assignment c
              \<lparr>a_name = name, a_id = Some aid, a_due_date = Some ''2026-02-01T09:00:00-0800'',
               a_url = assignment_url (c_id c) href (Some aid)\<rparr>)) =
           Inr (Some (c_id c @ ''-'' @ aid @ ''@gradescope-sync'',
                      \<lparr>dt_year = 2026, dt_month = 2, dt_day = 1, dt_hour = 9,
                        dt_minute = 0, dt_second = 0,
                        dt_tzinfo = Some (- 8 * 3600 * 1000000)\<rparr>)) \<and>
         endswith (c_id c @ ''-'' @ aid @ ''@gradescope-sync'') (aid @ ''@gradescope-sync'')"
proof -
  have h: "process_row (c_id c) header = None"
    using header by (simp add: process_row_def)
  have "resolve_due_date row = Some ''2026-02-01T09:00:00-0800''"
    using due by (simp add: resolve_due_date_def due_method1_def falsy_def)
  then have r: "process_row (c_id c) row =
      Some \<lparr>a_name = name, a_id = Some aid, a_due_date = Some ''2026-02-01T09:00:00-0800'',
             a_url = assignment_url (c_id c) href (Some aid)\<rparr>"
    using data name by (simp add: process_row_def falsy_def)
  have g: "get_assignments soup (c_id c) =
      [\<lparr>a_name = name, a_id = Some aid, a_due_date = Some ''2026-02-01T09:00:00-0800'',
        a_url = assignment_url (c_id c) href (Some aid)\<rparr>]"
    by (simp add: get_assignments_def rows List.map_filter_simps h r)
  have e: "endswith (c_id c @ ''-'' @ aid @ ''@gradescope-sync'') (aid @ ''@gradescope-sync'')"
    by (simp add: endswith_def)
  show ?thesis
    unfolding g using e
    by (simp add: create_event_def ical_assignment_def due_date_arg_def dict_get_def
        of_opt_def feb1_parse Let_def)
qed

theorem one_row_end_to_end_witness:
  "find_all is_row (page_of [link_row]) = [header_row, link_row] \<and>
   find_first (\<lambda>t. tag_get t ''role'' = Some ''columnheader'') header_row \<noteq> None \<and>
   find_first (\<lambda>t. tag_get t ''role'' = Some ''columnheader'') link_row = None \<and>
   name_href_aid link_row =
     (Some ''Homework 1'', Some ''/courses/1001/assignments/42'', Some ''42'') \<and>
   find_first is_due_time link_row =
     Some (Tag ''time'' (Some [''submissionTimeChart--dueDate''])
             [(''datetime'', ''2026-02-01T09:00:00-0800'')]
             [NavigableString ''Feb 01 at 9:00AM'']) \<and>
   get_assignments (page_of [link_row]) ''1001'' =
     [\<lparr>a_name = ''Homework 1'', a_id = Some ''42'',
       a_due_date = Some ''2026-02-01T09:00:00-0800'',
       a_url = Some ''https://www.gradescope.com/courses/1001/assignments/42''\<rparr>] \<and>
   map_sum id (map_option (\<lambda>ev. (ev_uid ev, ev_dtstart ev)))
     (create_event utcnow_example 2026 (ical_assignment course_example
       \<lparr>a_name = ''Homework 1'', a_id = Some ''42'',
        a_due_date = Some ''2026-02-01T09:00:00-0800'',
        a_url = Some ''https://www.gradescope.com/courses/1001/assignments/42''\<rparr>)) =
     Inr (Some (''1001-42@gradescope-sync'',
                \<lparr>dt_year = 2026, dt_month = 2, dt_day = 1, dt_hour = 9,
                    dt_minute = 0, dt_second = 0, dt_tzinfo = Some (- 28800000000)\<rparr>))"
proof -
  have rows: "find_all is_row (page_of [link_row]) = [header_row, link_row]"
    and header: "find_first (\<lambda>t. tag_get t ''role'' = Some ''columnheader'') header_row \<noteq> None"
    and data: "find_first (\<lambda>t. tag_get t ''role'' = Some ''columnheader'') link_row = None"
    and name: "name_href_aid link_row =
      (Some ''Homework 1'', Some ''/courses/1001/assignments/42'', Some ''42'')"
    and due: "find_first is_due_time link_row =
      Some (Tag ''time'' (Some [''submissionTimeChart--dueDate''])
              [(''datetime'', ''2026-02-01T09:00:00-0800'')]
              [NavigableString ''Feb 01 at 9:00AM''])"
    and url: "assignment_url ''1001'' (Some ''/courses/1001/assignments/42'') (Some ''42'') =
      Some ''https://www.gradescope.com/courses/1001/assignments/42''"
    by code_simp+
  have c: "c_id course_example = ''1001''"
    by (simp add: course_example_def)
  from one_row_end_to_end [OF rows header data name _ due, of course_example
      utcnow_example 2026]
  show ?thesis
    by (simp add: rows header data name due url c)
qed

end
